theory Spec2Isabelle
  imports Main
begin

section \<open>The settings registry and resolver of \<open>mezzanine/conf/__init__.py\<close>\<close>

text \<open>
  The module keeps a process-wide \<open>registry\<close> of setting descriptors, filled by
  \<open>register_setting\<close>, and a \<open>Settings\<close> object whose \<open>__getattr__\<close> merges three
  sources: the rows of the \<open>Setting\<close> table (cached per request), the attributes of
  \<open>django.conf.settings\<close>, and the registered default.

  The embedding follows the Python 3 reading of the module (\<open>future.builtins.str\<close> and
  \<open>bytes\<close> are then the builtin types). Exceptions are values of a sum type, the
  dictionaries are maps, and every function that mutates the \<open>Settings\<close> object, the
  table or the list of emitted warnings takes the state and returns the new one.
\<close>

subsection \<open>Values, types and errors\<close>

text \<open>
  The Python values a setting's default can take here: \<open>None\<close>, a \<open>bool\<close>, an \<open>int\<close>,
  a \<open>str\<close>, a lazily translated text (an instance of Django's \<open>Promise\<close>, carried with
  the text it casts to), a \<open>bytes\<close> object, a \<open>list\<close> and a \<open>tuple\<close>.
\<close>

datatype pyval =
    VNone
  | VBool bool
  | VInt int
  | VStr string
  | VPromise string
  | VBytes string
  | VList "pyval list"
  | VTuple "pyval list"

text \<open>The classes that end up in a descriptor's \<open>"type"\<close> entry for those values.\<close>

datatype setting_type = TBool | TInt | TStr | TBytes | TNoneType | TList | TTuple

datatype error = TypeError | ValueError | AttributeError

text \<open>
  The builtins and operators of the Python runtime that the module applies to values
  and that are not code of the module: \<open>int(text)\<close> and \<open>bytes(text, encoding='utf8')\<close>
  (\<open>None\<close> when they raise \<open>ValueError\<close>; \<open>UnicodeEncodeError\<close> is a subclass of it),
  \<open>str.title\<close>, the operator \<open>!=\<close> on two values and the operator \<open>+=\<close>.
  Every function below takes them as a parameter, so that a theorem about the module
  holds whatever these builtins compute.
\<close>

record python =
  py_int :: "string \<Rightarrow> int option"
  py_utf8 :: "string \<Rightarrow> string option"
  py_title :: "string \<Rightarrow> string"
  py_ne :: "pyval \<Rightarrow> pyval \<Rightarrow> bool"
  py_iadd :: "pyval \<Rightarrow> pyval \<Rightarrow> error + pyval"

subsection \<open>The registry\<close>

text \<open>A descriptor: the dict stored under \<open>registry[name]\<close>, one field per key.\<close>

record setting =
  s_name :: string
  s_label :: pyval
  s_editable :: bool
  s_description :: pyval
  s_default :: pyval
  s_choices :: pyval
  s_type :: setting_type
  s_translatable :: bool

type_synonym registry = "string \<rightharpoonup> setting"

text \<open>\<open>django.conf.settings\<close>, as the attributes it defines.\<close>

type_synonym django_settings = "string \<rightharpoonup> pyval"

text \<open>The keyword arguments of \<open>register_setting\<close>; \<open>None\<close> for \<open>name\<close> is the omitted argument.\<close>

record register_args =
  a_name :: "string option"
  a_label :: pyval
  a_editable :: bool
  a_description :: pyval
  a_default :: pyval
  a_choices :: pyval
  a_append :: bool
  a_translatable :: bool

text \<open>\<open>isinstance\<close> for the four classes the chain tests; \<open>bool\<close> is a subclass of \<open>int\<close>.\<close>

fun isinstance_bool :: "pyval \<Rightarrow> bool" where
  "isinstance_bool (VBool b) = True"
| "isinstance_bool v = False"

fun isinstance_int :: "pyval \<Rightarrow> bool" where
  "isinstance_int (VBool b) = True"
| "isinstance_int (VInt i) = True"
| "isinstance_int v = False"

fun isinstance_str_or_Promise :: "pyval \<Rightarrow> bool" where
  "isinstance_str_or_Promise (VStr s) = True"
| "isinstance_str_or_Promise (VPromise s) = True"
| "isinstance_str_or_Promise v = False"

fun isinstance_bytes :: "pyval \<Rightarrow> bool" where
  "isinstance_bytes (VBytes b) = True"
| "isinstance_bytes v = False"

text \<open>\<open>type(default)\<close>, the last branch of the chain.\<close>

fun type_of :: "pyval \<Rightarrow> setting_type" where
  "type_of VNone = TNoneType"
| "type_of (VBool b) = TBool"
| "type_of (VInt i) = TInt"
| "type_of (VStr s) = TStr"
| "type_of (VPromise s) = TStr"
| "type_of (VBytes b) = TBytes"
| "type_of (VList xs) = TList"
| "type_of (VTuple xs) = TTuple"

definition setting_type_of :: "pyval \<Rightarrow> setting_type" where
  "setting_type_of d =
     (if isinstance_bool d then TBool
      else if isinstance_int d then TInt
      else if isinstance_str_or_Promise d then TStr
      else if isinstance_bytes d then TBytes
      else type_of d)"

text \<open>\<open>name.replace("_", " ").title()\<close>\<close>

definition default_label :: "python \<Rightarrow> string \<Rightarrow> pyval" where
  "default_label py n = VStr (py_title py (map (\<lambda>c. if c = CHR ''_'' then CHR '' '' else c) n))"

text \<open>The dict built at the end of \<open>register_setting\<close>, for the name \<open>n\<close>.\<close>

definition new_setting :: "python \<Rightarrow> django_settings \<Rightarrow> register_args \<Rightarrow> string \<Rightarrow> setting" where
  "new_setting py dj a n =
     (let editable = (if dj n \<noteq> None then False else a_editable a);
          label = (if a_label a = VNone then default_label py n else a_label a)
      in \<lparr>s_name = n, s_label = label, s_editable = editable,
          s_description = a_description a, s_default = a_default a,
          s_choices = a_choices a, s_type = setting_type_of (a_default a),
          s_translatable = a_translatable a\<rparr>)"

text \<open>
  \<open>register_setting\<close>: the two argument checks, the append path, then the descriptor.
  The result is the error raised or the registry after the call.
\<close>

definition register_setting ::
  "python \<Rightarrow> django_settings \<Rightarrow> registry \<Rightarrow> register_args \<Rightarrow> error + registry" where
  "register_setting py dj reg a =
     (case a_name a of
        None \<Rightarrow> Inl TypeError
      | Some n \<Rightarrow>
          if a_editable a \<and> a_default a = VNone then Inl TypeError
          else
            (case (if a_append a then reg n else None) of
               Some s \<Rightarrow>
                 (case py_iadd py (s_default s) (a_default a) of
                    Inl e \<Rightarrow> Inl e
                  | Inr v \<Rightarrow> Inr (reg(n \<mapsto> s\<lparr>s_default := v\<rparr>)))
             | None \<Rightarrow> Inr (reg(n \<mapsto> new_setting py dj a n))))"

subsection \<open>The resolver\<close>

text \<open>
  Modelled from the spec: the \<open>Setting\<close> model of \<open>mezzanine.conf.models\<close> is not part of
  the module; a persisted row is a name and a textual value.
\<close>

record setting_obj =
  row_name :: string
  row_value :: string

text \<open>
  The key of \<open>_editable_caches\<close>: the \<open>NULL_REQUEST\<close> sentinel or a request object, told
  apart by identity.
\<close>

datatype request_key = NULL_REQUEST | Request nat

type_synonym editable_cache = "string \<rightharpoonup> pyval"

text \<open>
  What a call on the \<open>Settings\<close> object can read and change: its \<open>_editable_caches\<close>,
  the rows of the table, and the warnings emitted so far. \<open>db_scans\<close> counts the
  evaluations of \<open>Setting.objects.all()\<close>; the code has no such counter, it is there to
  state how often the table is read.
\<close>

record world =
  editable_caches :: "request_key \<rightharpoonup> editable_cache"
  setting_objects :: "setting_obj list"
  warnings :: "string list"
  db_scans :: nat

text \<open>What the module reads and never writes while resolving.\<close>

record env =
  python_rt :: python
  django :: django_settings
  registry_of :: registry

text \<open>\<open>Settings.__init__\<close>: the sentinel is mapped to an empty dict from the start.\<close>

definition Settings_init :: "setting_obj list \<Rightarrow> world" where
  "Settings_init rows =
     \<lparr>editable_caches = [NULL_REQUEST \<mapsto> Map.empty], setting_objects = rows,
      warnings = [], db_scans = 0\<rparr>"

text \<open>
  \<open>_current_request\<close>: \<open>current_request() or self.NULL_REQUEST\<close>. The ambient request
  comes from \<open>mezzanine.core.request\<close>; it is the argument \<open>cur\<close> of every call.
\<close>

definition current_request_key :: "nat option \<Rightarrow> request_key" where
  "current_request_key cur = (case cur of None \<Rightarrow> NULL_REQUEST | Some r \<Rightarrow> Request r)"

definition clear_cache :: "nat option \<Rightarrow> world \<Rightarrow> world" where
  "clear_cache cur w =
     w\<lparr>editable_caches := (editable_caches w)(current_request_key cur := None)\<rparr>"

definition deprecation_text :: string where
  "deprecation_text =
     ''Settings.use_editable() is deprecated in favour of '' @
     ''Settings.clear_cache(). Please update your code.''"

definition use_editable :: "nat option \<Rightarrow> world \<Rightarrow> world" where
  "use_editable cur w =
     (let w1 = clear_cache cur w in w1\<lparr>warnings := warnings w1 @ [deprecation_text]\<rparr>)"

text \<open>
  \<open>TYPE_FUNCTIONS.get(setting_type, setting_type)\<close> applied to the stored text: the
  lambda for \<open>bool\<close>, \<open>bytes\<close> with the UTF-8 encoding, and otherwise the class itself.
  \<open>str(text)\<close> is the text, \<open>list(text)\<close> and \<open>tuple(text)\<close> hold its characters, and
  \<open>NoneType\<close> takes no argument.
\<close>

fun type_fn :: "python \<Rightarrow> setting_type \<Rightarrow> string \<Rightarrow> error + pyval" where
  "type_fn py TBool val = Inr (VBool (val \<noteq> ''False''))"
| "type_fn py TBytes val =
     (case py_utf8 py val of None \<Rightarrow> Inl ValueError | Some b \<Rightarrow> Inr (VBytes b))"
| "type_fn py TInt val =
     (case py_int py val of None \<Rightarrow> Inl ValueError | Some i \<Rightarrow> Inr (VInt i))"
| "type_fn py TStr val = Inr (VStr val)"
| "type_fn py TNoneType val = Inl TypeError"
| "type_fn py TList val = Inr (VList (map (\<lambda>c. VStr [c]) val))"
| "type_fn py TTuple val = Inr (VTuple (map (\<lambda>c. VStr [c]) val))"

text \<open>
  The inner \<open>try\<close> of \<open>_load\<close>: a \<open>ValueError\<close> is replaced by the registered default,
  any other exception leaves the \<open>try\<close>.
\<close>

definition convert :: "python \<Rightarrow> setting \<Rightarrow> string \<Rightarrow> error + pyval" where
  "convert py s val =
     (case type_fn py (s_type s) val of
        Inl ValueError \<Rightarrow> Inr (s_default s)
      | Inl e \<Rightarrow> Inl e
      | Inr v \<Rightarrow> Inr v)"

text \<open>The three accumulators of the loop.\<close>

record load_acc =
  removed_settings :: "string list"
  conflicting_settings :: "string list"
  new_cache :: editable_cache

definition load_acc0 :: load_acc where
  "load_acc0 = \<lparr>removed_settings = [], conflicting_settings = [], new_cache = Map.empty\<rparr>"

text \<open>The \<open>for\<close> loop of \<open>_load\<close> over the rows, in table order.\<close>

fun load_loop :: "env \<Rightarrow> setting_obj list \<Rightarrow> load_acc \<Rightarrow> error + load_acc" where
  "load_loop e [] acc = Inr acc"
| "load_loop e (obj # objs) acc =
     (case registry_of e (row_name obj) of
        None \<Rightarrow>
          load_loop e objs
            (acc\<lparr>removed_settings := removed_settings acc @ [row_name obj]\<rparr>)
      | Some s \<Rightarrow>
          (case convert (python_rt e) s (row_value obj) of
             Inl err \<Rightarrow> Inl err
           | Inr setting_value \<Rightarrow>
               (case django e (row_name obj) of
                  None \<Rightarrow>
                    load_loop e objs
                      (acc\<lparr>new_cache := (new_cache acc)(row_name obj \<mapsto> setting_value)\<rparr>)
                | Some dv \<Rightarrow>
                    if py_ne (python_rt e) setting_value (s_default s)
                    then load_loop e objs
                      (acc\<lparr>conflicting_settings :=
                             conflicting_settings acc @ [row_name obj]\<rparr>)
                    else load_loop e objs acc)))"

text \<open>\<open>", ".join(names)\<close>\<close>

fun join_comma :: "string list \<Rightarrow> string" where
  "join_comma [] = []"
| "join_comma [x] = x"
| "join_comma (x # y # zs) = x @ '', '' @ join_comma (y # zs)"

definition conflict_warning :: "string list \<Rightarrow> string" where
  "conflict_warning names =
     ''These settings are defined in both settings.py and '' @
     ''the database: '' @ join_comma names @ ''. The settings.py values will be used.''"

text \<open>
  \<open>_load\<close>: the scan, then the bulk delete of the rows whose names were marked, then
  the warning. An exception inside the loop leaves the function before either.
\<close>

definition load :: "env \<Rightarrow> world \<Rightarrow> (error + editable_cache) \<times> world" where
  "load e w =
     (let w1 = w\<lparr>db_scans := Suc (db_scans w)\<rparr> in
      case load_loop e (setting_objects w) load_acc0 of
        Inl err \<Rightarrow> (Inl err, w1)
      | Inr acc \<Rightarrow>
          let w2 = (if removed_settings acc \<noteq> []
                    then w1\<lparr>setting_objects :=
                              filter (\<lambda>obj. row_name obj \<notin> set (removed_settings acc))
                                (setting_objects w1)\<rparr>
                    else w1);
              w3 = (if conflicting_settings acc \<noteq> []
                    then w2\<lparr>warnings :=
                              warnings w2 @ [conflict_warning (conflicting_settings acc)]\<rparr>
                    else w2)
          in (Inr (new_cache acc), w3))"

text \<open>\<open>_get_editable\<close>: the cached dict of the request, or a load stored under it.\<close>

definition get_editable ::
  "env \<Rightarrow> world \<Rightarrow> request_key \<Rightarrow> (error + editable_cache) \<times> world" where
  "get_editable e w request =
     (case editable_caches w request of
        Some editable_settings \<Rightarrow> (Inr editable_settings, w)
      | None \<Rightarrow>
          (case load e w of
             (Inl err, w') \<Rightarrow> (Inl err, w')
           | (Inr c, w') \<Rightarrow>
               (Inr c, w'\<lparr>editable_caches := (editable_caches w')(request \<mapsto> c)\<rparr>)))"

text \<open>\<open>getattr(django_settings, name, default)\<close>\<close>

definition getattr_or :: "django_settings \<Rightarrow> string \<Rightarrow> pyval \<Rightarrow> pyval" where
  "getattr_or dj n d = (case dj n of Some v \<Rightarrow> v | None \<Rightarrow> d)"

text \<open>\<open>Settings.__getattr__\<close>\<close>

definition settings_getattr ::
  "env \<Rightarrow> nat option \<Rightarrow> world \<Rightarrow> string \<Rightarrow> (error + pyval) \<times> world" where
  "settings_getattr e cur w n =
     (case registry_of e n of
        None \<Rightarrow>
          (case django e n of
             None \<Rightarrow> (Inl AttributeError, w)
           | Some v \<Rightarrow> (Inr v, w))
      | Some s \<Rightarrow>
          if \<not> s_editable s then (Inr (getattr_or (django e) n (s_default s)), w)
          else
            (case get_editable e w (current_request_key cur) of
               (Inl err, w') \<Rightarrow> (Inl err, w')
             | (Inr editable_cache, w') \<Rightarrow>
                 (case editable_cache n of
                    Some v \<Rightarrow> (Inr v, w')
                  | None \<Rightarrow> (Inr (getattr_or (django e) n (s_default s)), w'))))"

subsection \<open>Sequences of calls\<close>

text \<open>
  What can happen to a \<open>Settings\<close> object over time: an attribute is read under an
  ambient request (or none), the cache is cleared through either entry point, another
  process rewrites the table, or a request object is reclaimed and the
  \<open>WeakKeyDictionary\<close> drops its entry.
\<close>

datatype event =
    Get "nat option" string
  | ClearCache "nat option"
  | UseEditable "nat option"
  | DbSet "setting_obj list"
  | Discard nat

fun step :: "env \<Rightarrow> world \<Rightarrow> event \<Rightarrow> world" where
  "step e w (Get cur n) = snd (settings_getattr e cur w n)"
| "step e w (ClearCache cur) = clear_cache cur w"
| "step e w (UseEditable cur) = use_editable cur w"
| "step e w (DbSet rows) = w\<lparr>setting_objects := rows\<rparr>"
| "step e w (Discard r) = w\<lparr>editable_caches := (editable_caches w)(Request r := None)\<rparr>"

definition run :: "env \<Rightarrow> world \<Rightarrow> event list \<Rightarrow> world" where
  "run e w evs = foldl (step e) w evs"

text \<open>The events that remove the cache entry of the key \<open>k\<close>.\<close>

fun evicts :: "request_key \<Rightarrow> event \<Rightarrow> bool" where
  "evicts k (ClearCache cur) = (current_request_key cur = k)"
| "evicts k (UseEditable cur) = (current_request_key cur = k)"
| "evicts k (Discard r) = (k = Request r)"
| "evicts k ev = False"

subsection \<open>What a load computes, in the words of the specification\<close>

text \<open>
  A row is in conflict when its name is registered, the framework settings define the
  name, and the converted value differs from the registered default.
\<close>

definition in_conflict :: "env \<Rightarrow> setting_obj \<Rightarrow> bool" where
  "in_conflict e obj =
     (case registry_of e (row_name obj) of
        None \<Rightarrow> False
      | Some s \<Rightarrow>
          (case convert (python_rt e) s (row_value obj) of
             Inl err \<Rightarrow> False
           | Inr v \<Rightarrow> django e (row_name obj) \<noteq> None \<and> py_ne (python_rt e) v (s_default s)))"

text \<open>The names of the rows in conflict, in table order.\<close>

definition conflicts_of :: "env \<Rightarrow> setting_obj list \<Rightarrow> string list" where
  "conflicts_of e objs = map row_name (filter (in_conflict e) objs)"

subsection \<open>A concrete runtime and concrete inputs\<close>

text \<open>
  An instance of the runtime, used only to evaluate the functions above on the
  examples of this file; no theorem about the module depends on it. It reads decimal
  literals of ASCII digits with an optional minus sign, encodes the code points below
  256, title-cases ASCII letters, compares values by structure (a \<open>bool\<close> equals the
  \<open>int\<close> 0 or 1, a lazy text equals the text it casts to) and adds numbers, texts,
  byte strings, lists and tuples. What CPython and Django do beyond that (other
  spellings of an integer, \<open>+=\<close> with a lazy text) is not part of it.
\<close>

definition is_digit :: "char \<Rightarrow> bool" where
  "is_digit c = ((48::nat) \<le> of_char c \<and> (of_char c :: nat) \<le> 57)"

fun digits_value :: "string \<Rightarrow> nat \<Rightarrow> nat option" where
  "digits_value [] acc = Some acc"
| "digits_value (c # cs) acc =
     (if is_digit c then digits_value cs (10 * acc + (of_char c - 48)) else None)"

definition sample_int :: "string \<Rightarrow> int option" where
  "sample_int t =
     (case t of
        [] \<Rightarrow> None
      | c # cs \<Rightarrow>
          if c = CHR ''-'' then
            (if cs = [] then None else map_option (\<lambda>n. - int n) (digits_value cs 0))
          else map_option int (digits_value t 0))"

fun utf8_char :: "char \<Rightarrow> string" where
  "utf8_char (Char b0 b1 b2 b3 b4 b5 b6 b7) =
     (if \<not> b7 then [Char b0 b1 b2 b3 b4 b5 b6 b7]
      else [Char b6 b7 False False False False True True,
            Char b0 b1 b2 b3 b4 b5 False True])"

definition sample_utf8 :: "string \<Rightarrow> string option" where
  "sample_utf8 t = Some (concat (map utf8_char t))"

definition is_upper :: "char \<Rightarrow> bool" where
  "is_upper c = ((65::nat) \<le> of_char c \<and> (of_char c :: nat) \<le> 90)"

definition is_lower :: "char \<Rightarrow> bool" where
  "is_lower c = ((97::nat) \<le> of_char c \<and> (of_char c :: nat) \<le> 122)"

text \<open>An ASCII letter and its other case differ in the bit of weight 32.\<close>

fun set_bit5 :: "bool \<Rightarrow> char \<Rightarrow> char" where
  "set_bit5 b (Char b0 b1 b2 b3 b4 b5 b6 b7) = Char b0 b1 b2 b3 b4 b b6 b7"

fun title_from :: "bool \<Rightarrow> string \<Rightarrow> string" where
  "title_from prev [] = []"
| "title_from prev (c # cs) =
     (if is_upper c \<or> is_lower c then set_bit5 prev c # title_from True cs
      else c # title_from False cs)"

fun sample_eq :: "pyval \<Rightarrow> pyval \<Rightarrow> bool"
and sample_eq_list :: "pyval list \<Rightarrow> pyval list \<Rightarrow> bool" where
  "sample_eq VNone VNone = True"
| "sample_eq (VBool a) (VBool b) = (a = b)"
| "sample_eq (VBool a) (VInt j) = ((if a then 1 else 0) = j)"
| "sample_eq (VInt i) (VBool b) = (i = (if b then 1 else 0))"
| "sample_eq (VInt i) (VInt j) = (i = j)"
| "sample_eq (VStr a) (VStr b) = (a = b)"
| "sample_eq (VStr a) (VPromise b) = (a = b)"
| "sample_eq (VPromise a) (VStr b) = (a = b)"
| "sample_eq (VPromise a) (VPromise b) = (a = b)"
| "sample_eq (VBytes a) (VBytes b) = (a = b)"
| "sample_eq (VList xs) (VList ys) = sample_eq_list xs ys"
| "sample_eq (VTuple xs) (VTuple ys) = sample_eq_list xs ys"
| "sample_eq x y = False"
| "sample_eq_list [] [] = True"
| "sample_eq_list (x # xs) (y # ys) = (sample_eq x y \<and> sample_eq_list xs ys)"
| "sample_eq_list xs ys = False"

fun int_of_number :: "pyval \<Rightarrow> int option" where
  "int_of_number (VBool b) = Some (if b then 1 else 0)"
| "int_of_number (VInt i) = Some i"
| "int_of_number v = None"

fun sample_iadd :: "pyval \<Rightarrow> pyval \<Rightarrow> error + pyval" where
  "sample_iadd (VStr a) (VStr b) = Inr (VStr (a @ b))"
| "sample_iadd (VBytes a) (VBytes b) = Inr (VBytes (a @ b))"
| "sample_iadd (VList xs) (VList ys) = Inr (VList (xs @ ys))"
| "sample_iadd (VList xs) (VTuple ys) = Inr (VList (xs @ ys))"
| "sample_iadd (VList xs) (VStr t) = Inr (VList (xs @ map (\<lambda>c. VStr [c]) t))"
| "sample_iadd (VList xs) (VBytes b) = Inr (VList (xs @ map (\<lambda>c. VInt (of_char c)) b))"
| "sample_iadd (VTuple xs) (VTuple ys) = Inr (VTuple (xs @ ys))"
| "sample_iadd x y =
     (case (int_of_number x, int_of_number y) of
        (Some i, Some j) \<Rightarrow> Inr (VInt (i + j))
      | _ \<Rightarrow> Inl TypeError)"

definition sample_python :: python where
  "sample_python =
     \<lparr>py_int = sample_int, py_utf8 = sample_utf8, py_title = title_from False,
      py_ne = (\<lambda>x y. \<not> sample_eq x y), py_iadd = sample_iadd\<rparr>"

text \<open>Registrations: an appended list, a name the project settings define, a boolean.\<close>

definition ex_list_setting :: setting where
  "ex_list_setting =
     \<lparr>s_name = ''TAGS'', s_label = VStr ''Tags'', s_editable = False,
      s_description = VNone, s_default = VList [VStr ''a''], s_choices = VNone,
      s_type = TList, s_translatable = False\<rparr>"

definition ex_append_args :: register_args where
  "ex_append_args =
     \<lparr>a_name = Some ''TAGS'', a_label = VStr ''Other'', a_editable = True,
      a_description = VStr ''d'', a_default = VList [VStr ''b''], a_choices = VNone,
      a_append = True, a_translatable = True\<rparr>"

definition ex_title_args :: register_args where
  "ex_title_args =
     \<lparr>a_name = Some ''SITE_TITLE'', a_label = VNone, a_editable = True,
      a_description = VNone, a_default = VStr ''Mezzanine'', a_choices = VNone,
      a_append = False, a_translatable = False\<rparr>"

definition ex_bool_args :: register_args where
  "ex_bool_args =
     \<lparr>a_name = Some ''COMMENTS_ON'', a_label = VNone, a_editable = True,
      a_description = VNone, a_default = VBool True, a_choices = VNone,
      a_append = False, a_translatable = False\<rparr>"

text \<open>
  A project: \<open>settings.py\<close> defines \<open>SITE_TITLE\<close> and \<open>DEBUG\<close>; the registry holds an editable
  integer, the title, and a name registered with no default.
\<close>

definition ex_django :: django_settings where
  "ex_django = [''SITE_TITLE'' \<mapsto> VStr ''My site'', ''DEBUG'' \<mapsto> VBool True]"

definition ex_items :: setting where
  "ex_items =
     \<lparr>s_name = ''ITEMS_PER_PAGE'', s_label = VStr ''Items Per Page'', s_editable = True,
      s_description = VNone, s_default = VInt 10, s_choices = VNone,
      s_type = TInt, s_translatable = False\<rparr>"

definition ex_title :: setting where
  "ex_title =
     \<lparr>s_name = ''SITE_TITLE'', s_label = VStr ''Site Title'', s_editable = False,
      s_description = VNone, s_default = VStr ''Mezzanine'', s_choices = VNone,
      s_type = TStr, s_translatable = False\<rparr>"

definition ex_nodefault :: setting where
  "ex_nodefault =
     \<lparr>s_name = ''FORM_CLASS'', s_label = VStr ''Form Class'', s_editable = False,
      s_description = VNone, s_default = VNone, s_choices = VNone,
      s_type = TNoneType, s_translatable = False\<rparr>"

definition ex_registry :: registry where
  "ex_registry = [''ITEMS_PER_PAGE'' \<mapsto> ex_items, ''SITE_TITLE'' \<mapsto> ex_title]"

definition ex_env :: env where
  "ex_env = \<lparr>python_rt = sample_python, django = ex_django, registry_of = ex_registry\<rparr>"

definition ex_env_nodefault :: env where
  "ex_env_nodefault =
     \<lparr>python_rt = sample_python, django = ex_django,
      registry_of = ex_registry(''FORM_CLASS'' \<mapsto> ex_nodefault)\<rparr>"

definition ex_rows :: "setting_obj list" where
  "ex_rows =
     [\<lparr>row_name = ''ITEMS_PER_PAGE'', row_value = ''25''\<rparr>,
      \<lparr>row_name = ''SITE_TITLE'', row_value = ''Other''\<rparr>,
      \<lparr>row_name = ''OLD_SETTING'', row_value = ''x''\<rparr>]"

text \<open>A registration without default, a row that does not parse, a row of that name.\<close>

definition ex_nodefault_args :: register_args where
  "ex_nodefault_args =
     \<lparr>a_name = Some ''FORM_CLASS'', a_label = VNone, a_editable = False,
      a_description = VNone, a_default = VNone, a_choices = VNone,
      a_append = False, a_translatable = False\<rparr>"

definition ex_bad_rows :: "setting_obj list" where
  "ex_bad_rows = [\<lparr>row_name = ''ITEMS_PER_PAGE'', row_value = ''abc''\<rparr>]"

definition ex_nodefault_rows :: "setting_obj list" where
  "ex_nodefault_rows = [\<lparr>row_name = ''FORM_CLASS'', row_value = ''x''\<rparr>]"

text \<open>The state after a first read under request 7, and a sequence of events.\<close>

definition ex_after_request :: world where
  "ex_after_request =
     snd (settings_getattr ex_env (Some 7) (Settings_init ex_rows) ''ITEMS_PER_PAGE'')"

definition ex_events :: "event list" where
  "ex_events =
     [DbSet [\<lparr>row_name = ''ITEMS_PER_PAGE'', row_value = ''50''\<rparr>],
      Get (Some 8) ''ITEMS_PER_PAGE'', ClearCache (Some 8), Discard 8,
      Get None ''ITEMS_PER_PAGE'']"

text \<open>A second framework-defined name in the registry, and a table with two conflicts.\<close>

definition ex_debug :: setting where
  "ex_debug =
     \<lparr>s_name = ''DEBUG'', s_label = VStr ''Debug'', s_editable = False,
      s_description = VNone, s_default = VBool False, s_choices = VNone,
      s_type = TBool, s_translatable = False\<rparr>"

definition ex_env_conflicts :: env where
  "ex_env_conflicts =
     \<lparr>python_rt = sample_python, django = ex_django,
      registry_of = ex_registry(''DEBUG'' \<mapsto> ex_debug)\<rparr>"

definition ex_conflict_rows :: "setting_obj list" where
  "ex_conflict_rows =
     [\<lparr>row_name = ''ITEMS_PER_PAGE'', row_value = ''25''\<rparr>,
      \<lparr>row_name = ''SITE_TITLE'', row_value = ''Other''\<rparr>,
      \<lparr>row_name = ''DEBUG'', row_value = ''True''\<rparr>]"

section \<open>Properties\<close>

subsection \<open>Registration\<close>

lemma setting_type_of_cases:
  "setting_type_of d =
     (case d of
        VNone \<Rightarrow> TNoneType | VBool b \<Rightarrow> TBool | VInt i \<Rightarrow> TInt
      | VStr t \<Rightarrow> TStr | VPromise t \<Rightarrow> TStr | VBytes b \<Rightarrow> TBytes
      | VList xs \<Rightarrow> TList | VTuple xs \<Rightarrow> TTuple)"
  by (cases d) (simp_all add: setting_type_of_def)

lemma register_new:
  assumes "a_name a = Some n" "\<not> (a_append a \<and> reg n \<noteq> None)"
    "register_setting py dj reg a = Inr reg'"
  shows "reg' = reg(n \<mapsto> new_setting py dj a n)"
  using assms by (auto simp: register_setting_def split: if_splits option.splits sum.splits)

text \<open>
  C6. A call that does not take the append path, for a name that
  \<open>django.conf.settings\<close> defines, stores a descriptor whose \<open>editable\<close> entry is
  \<open>False\<close>, whatever \<open>editable\<close> argument was passed.
\<close>

theorem framework_name_not_editable:
  assumes "a_name a = Some n"
      and "dj n = Some v"
      and "\<not> (a_append a \<and> reg n \<noteq> None)"
      and "register_setting py dj reg a = Inr reg'"
  shows "\<exists>s. reg' n = Some s \<and> \<not> s_editable s"
proof -
  have "reg' = reg(n \<mapsto> new_setting py dj a n)"
    using assms(1,3,4) by (rule register_new)
  with assms(2) show ?thesis by (simp add: new_setting_def Let_def)
qed

theorem framework_name_not_editable_witness:
  "a_editable ex_title_args
   \<and> (\<exists>reg' s. register_setting sample_python ex_django Map.empty ex_title_args = Inr reg'
          \<and> reg' ''SITE_TITLE'' = Some s \<and> \<not> s_editable s)"
proof -
  have h1: "a_name ex_title_args = Some ''SITE_TITLE''"
    and h3: "\<not> (a_append ex_title_args \<and> Map.empty ''SITE_TITLE'' \<noteq> None)"
    by (simp_all add: ex_title_args_def)
  have h2: "ex_django ''SITE_TITLE'' = Some (VStr ''My site'')"
    by (simp add: ex_django_def)
  have h4: "register_setting sample_python ex_django Map.empty ex_title_args
              = Inr (Map.empty(''SITE_TITLE'' \<mapsto>
                       new_setting sample_python ex_django ex_title_args ''SITE_TITLE''))"
    by (simp add: register_setting_def ex_title_args_def)
  from framework_name_not_editable [OF h1 h2 h3 h4] h4 show ?thesis
    by (simp add: ex_title_args_def)
qed

text \<open>
  C7. On the path that builds a descriptor, the stored type follows from the default by
  the chain of \<open>isinstance\<close> tests in the order of the code: \<open>bool\<close> first, so that a
  boolean, which is also an instance of \<open>int\<close>, is typed \<open>bool\<close>; then \<open>int\<close>; then
  text, lazy or not; then \<open>bytes\<close>; and for anything else the class of the default
  itself. \<open>True\<close>, \<open>5\<close>, \<open>"a"\<close> and \<open>b"a"\<close> give \<open>bool\<close>, \<open>int\<close>, \<open>str\<close> and \<open>bytes\<close>.
\<close>

theorem type_inference_order:
  assumes "a_name a = Some n"
      and "\<not> (a_append a \<and> reg n \<noteq> None)"
      and "register_setting py dj reg a = Inr reg'"
  shows "(\<exists>s. reg' n = Some s \<and>
            s_type s = (case a_default a of
                          VNone \<Rightarrow> TNoneType | VBool b \<Rightarrow> TBool | VInt i \<Rightarrow> TInt
                        | VStr t \<Rightarrow> TStr | VPromise t \<Rightarrow> TStr | VBytes b \<Rightarrow> TBytes
                        | VList xs \<Rightarrow> TList | VTuple xs \<Rightarrow> TTuple))
         \<and> isinstance_int (VBool b) \<and> setting_type_of (VBool b) = TBool
         \<and> setting_type_of (VBool True) = TBool \<and> setting_type_of (VInt 5) = TInt
         \<and> setting_type_of (VStr ''a'') = TStr \<and> setting_type_of (VBytes ''a'') = TBytes"
proof -
  have "reg' = reg(n \<mapsto> new_setting py dj a n)"
    using assms by (rule register_new)
  then have "\<exists>s. reg' n = Some s \<and>
            s_type s = (case a_default a of
                          VNone \<Rightarrow> TNoneType | VBool b \<Rightarrow> TBool | VInt i \<Rightarrow> TInt
                        | VStr t \<Rightarrow> TStr | VPromise t \<Rightarrow> TStr | VBytes b \<Rightarrow> TBytes
                        | VList xs \<Rightarrow> TList | VTuple xs \<Rightarrow> TTuple)"
    by (simp add: new_setting_def Let_def setting_type_of_cases)
  then show ?thesis by (simp add: setting_type_of_def)
qed

theorem type_inference_order_witness:
  "\<exists>reg' s. register_setting sample_python ex_django Map.empty ex_bool_args = Inr reg'
      \<and> reg' ''COMMENTS_ON'' = Some s \<and> s_type s = TBool"
proof -
  have h1: "a_name ex_bool_args = Some ''COMMENTS_ON''"
    and h2: "\<not> (a_append ex_bool_args \<and> Map.empty ''COMMENTS_ON'' \<noteq> None)"
    by (simp_all add: ex_bool_args_def)
  have h3: "register_setting sample_python ex_django Map.empty ex_bool_args
              = Inr (Map.empty(''COMMENTS_ON'' \<mapsto>
                       new_setting sample_python ex_django ex_bool_args ''COMMENTS_ON''))"
    by (simp add: register_setting_def ex_bool_args_def)
  from type_inference_order [OF h1 h2 h3] h3 show ?thesis
    by (simp add: ex_bool_args_def)
qed

text \<open>
  C8. With \<open>append\<close> true and the name already registered, a call that passes the two
  argument checks and whose \<open>+=\<close> succeeds replaces the default of the existing
  descriptor by the old default extended with the new one, and changes nothing else:
  every other entry of the descriptor and every other name of the registry stay as
  they were. The list \<open>["a"]\<close> appended with \<open>["b"]\<close> becomes \<open>["a", "b"]\<close>.
\<close>

theorem append_changes_default_only:
  assumes "a_name a = Some n"
      and "a_append a"
      and "reg n = Some s"
      and "\<not> (a_editable a \<and> a_default a = VNone)"
      and "py_iadd py (s_default s) (a_default a) = Inr v"
  shows "\<exists>reg' s'. register_setting py dj reg a = Inr reg' \<and> reg' n = Some s'
           \<and> s_default s' = v
           \<and> s_name s' = s_name s \<and> s_label s' = s_label s \<and> s_editable s' = s_editable s
           \<and> s_description s' = s_description s \<and> s_choices s' = s_choices s
           \<and> s_type s' = s_type s \<and> s_translatable s' = s_translatable s
           \<and> (\<forall>m. m \<noteq> n \<longrightarrow> reg' m = reg m)"
proof -
  have "register_setting py dj reg a = Inr (reg(n \<mapsto> s\<lparr>s_default := v\<rparr>))"
    using assms by (auto simp: register_setting_def)
  then show ?thesis by simp
qed

theorem append_changes_default_only_witness:
  "\<exists>reg' s'. register_setting sample_python Map.empty [''TAGS'' \<mapsto> ex_list_setting]
                 ex_append_args = Inr reg'
      \<and> reg' ''TAGS'' = Some s' \<and> s_default s' = VList [VStr ''a'', VStr ''b'']
      \<and> s_label s' = VStr ''Tags'' \<and> s_editable s' = False \<and> s_type s' = TList"
proof -
  have h1: "a_name ex_append_args = Some ''TAGS''" and h2: "a_append ex_append_args"
    and h4: "\<not> (a_editable ex_append_args \<and> a_default ex_append_args = VNone)"
    by (simp_all add: ex_append_args_def)
  have h3: "[''TAGS'' \<mapsto> ex_list_setting] ''TAGS'' = Some ex_list_setting" by simp
  have h5: "py_iadd sample_python (s_default ex_list_setting) (a_default ex_append_args)
              = Inr (VList [VStr ''a'', VStr ''b''])"
    by (simp add: sample_python_def ex_list_setting_def ex_append_args_def)
  from append_changes_default_only
         [where reg = "[''TAGS'' \<mapsto> ex_list_setting]" and dj = Map.empty,
          OF h1 h2 h3 h4 h5]
  obtain reg' s' where
    "register_setting sample_python Map.empty [''TAGS'' \<mapsto> ex_list_setting]
       ex_append_args = Inr reg'"
    "reg' ''TAGS'' = Some s'" "s_default s' = VList [VStr ''a'', VStr ''b'']"
    "s_label s' = s_label ex_list_setting" "s_editable s' = s_editable ex_list_setting"
    "s_type s' = s_type ex_list_setting"
    by blast
  then show ?thesis by (simp add: ex_list_setting_def)
qed

subsection \<open>Conversion of stored text\<close>

text \<open>
  C5. The conversion used for a setting of type \<open>bool\<close> sends the text \<open>False\<close> to
  \<open>False\<close> and every other text to \<open>True\<close>: \<open>True\<close>, \<open>1\<close>, the empty text, \<open>anything\<close>,
  and also \<open>false\<close> in lower case.
\<close>

theorem bool_text_conversion:
  "type_fn py TBool val = Inr (VBool (val \<noteq> ''False''))
   \<and> convert py (s\<lparr>s_type := TBool\<rparr>) val = Inr (VBool (val \<noteq> ''False''))
   \<and> type_fn py TBool ''False'' = Inr (VBool False)
   \<and> type_fn py TBool ''True'' = Inr (VBool True)
   \<and> type_fn py TBool ''1'' = Inr (VBool True)
   \<and> type_fn py TBool [] = Inr (VBool True)
   \<and> type_fn py TBool ''anything'' = Inr (VBool True)
   \<and> type_fn py TBool ''false'' = Inr (VBool True)"
  by (simp add: convert_def)

subsection \<open>The loop of a load\<close>

lemma load_loop_append:
  "load_loop e (xs @ ys) acc =
     (case load_loop e xs acc of Inl err \<Rightarrow> Inl err | Inr a \<Rightarrow> load_loop e ys a)"
  by (induction xs arbitrary: acc) (auto split: option.splits sum.splits)

lemma load_loop_removed:
  "load_loop e objs acc = Inr acc' \<Longrightarrow>
   removed_settings acc' =
     removed_settings acc @ map row_name (filter (\<lambda>obj. registry_of e (row_name obj) = None) objs)"
  by (induction objs arbitrary: acc) (auto split: option.splits sum.splits if_splits)

lemma load_loop_conflicting:
  "load_loop e objs acc = Inr acc' \<Longrightarrow>
   conflicting_settings acc' =
     conflicting_settings acc @ map row_name (filter (in_conflict e) objs)"
  by (induction objs arbitrary: acc)
     (auto simp: in_conflict_def split: option.splits sum.splits if_splits)

lemma load_loop_cache_other:
  "load_loop e objs acc = Inr acc' \<Longrightarrow> n \<notin> row_name ` set objs \<Longrightarrow>
   new_cache acc' n = new_cache acc n"
  by (induction objs arbitrary: acc) (auto split: option.splits sum.splits if_splits)

lemma load_loop_cache_none:
  "load_loop e objs acc = Inr acc' \<Longrightarrow> new_cache acc n = None \<Longrightarrow>
   registry_of e n = None \<or> django e n \<noteq> None \<Longrightarrow> new_cache acc' n = None"
proof (induction objs arbitrary: acc)
  case Nil
  then show ?case by simp
next
  case (Cons obj objs)
  show ?case
  proof (cases "registry_of e (row_name obj)")
    case None
    with Cons.prems(1) have
      "load_loop e objs (acc\<lparr>removed_settings := removed_settings acc @ [row_name obj]\<rparr>) = Inr acc'"
      by simp
    from Cons.IH [OF this] Cons.prems(2,3) show ?thesis by simp
  next
    case (Some s)
    with Cons.prems(1) obtain v where v: "convert (python_rt e) s (row_value obj) = Inr v"
      by (auto split: sum.splits)
    show ?thesis
    proof (cases "django e (row_name obj)")
      case None
      with Some Cons.prems(3) have ne: "row_name obj \<noteq> n" by auto
      from Cons.prems(1) Some v None have
        "load_loop e objs (acc\<lparr>new_cache := (new_cache acc)(row_name obj \<mapsto> v)\<rparr>) = Inr acc'"
        by simp
      from Cons.IH [OF this] Cons.prems(2,3) ne show ?thesis by simp
    next
      case (Some dv)
      with Cons.prems(1) \<open>registry_of e (row_name obj) = Some s\<close> v have
        "load_loop e objs (acc\<lparr>conflicting_settings := conflicting_settings acc @ [row_name obj]\<rparr>) = Inr acc'
         \<or> load_loop e objs acc = Inr acc'"
        by (auto split: if_splits)
      then show ?thesis
        using Cons.IH Cons.prems(2,3) by fastforce
    qed
  qed
qed

lemma load_loop_error:
  "load_loop e objs acc = Inl err \<Longrightarrow>
   \<exists>obj \<in> set objs. \<exists>s. registry_of e (row_name obj) = Some s
      \<and> type_fn (python_rt e) (s_type s) (row_value obj) = Inl err \<and> err \<noteq> ValueError"
  by (induction objs arbitrary: acc)
     (auto simp: convert_def split: option.splits sum.splits if_splits error.splits)

lemma type_fn_error:
  "type_fn py t val = Inl err \<Longrightarrow> err \<noteq> ValueError \<Longrightarrow> t = TNoneType"
  by (cases t) (auto split: option.splits)

lemma load_loop_total:
  assumes "\<forall>obj \<in> set objs. \<forall>s. registry_of e (row_name obj) = Some s \<longrightarrow> s_type s \<noteq> TNoneType"
  shows "\<exists>acc'. load_loop e objs acc = Inr acc'"
proof (cases "load_loop e objs acc")
  case (Inl err)
  from load_loop_error [OF Inl] obtain obj s where
    "obj \<in> set objs" "registry_of e (row_name obj) = Some s"
    "type_fn (python_rt e) (s_type s) (row_value obj) = Inl err" "err \<noteq> ValueError"
    by blast
  with assms type_fn_error show ?thesis by blast
next
  case (Inr a)
  then show ?thesis by blast
qed

lemma load_loop_cache_last:
  assumes "load_loop e (pre @ obj # post) acc = Inr acc'"
      and "registry_of e (row_name obj) = Some s"
      and "django e (row_name obj) = None"
      and "row_name obj \<notin> row_name ` set post"
  shows "convert (python_rt e) s (row_value obj) = Inr (the (new_cache acc' (row_name obj)))
         \<and> new_cache acc' (row_name obj) \<noteq> None"
proof -
  from assms(1) obtain a1 where a1: "load_loop e pre acc = Inr a1"
    and r: "load_loop e (obj # post) a1 = Inr acc'"
    by (auto simp: load_loop_append split: sum.splits)
  from r assms(2,3) obtain v where v: "convert (python_rt e) s (row_value obj) = Inr v"
    and r2: "load_loop e post (a1\<lparr>new_cache := (new_cache a1)(row_name obj \<mapsto> v)\<rparr>) = Inr acc'"
    by (auto split: sum.splits)
  from load_loop_cache_other [OF r2 assms(4)] have "new_cache acc' (row_name obj) = Some v"
    by simp
  with v show ?thesis by simp
qed

lemma filter_removed:
  "filter (\<lambda>obj. row_name obj \<notin> set (map row_name (filter (\<lambda>obj. registry_of e (row_name obj) = None) objs))) objs
   = filter (\<lambda>obj. registry_of e (row_name obj) \<noteq> None) objs"
  by (rule filter_cong) auto

lemma filter_none_removed:
  "filter (\<lambda>obj. registry_of e (row_name obj) = None) objs = [] \<Longrightarrow>
   filter (\<lambda>obj. registry_of e (row_name obj) \<noteq> None) objs = objs"
  by (induction objs) (auto split: if_splits)

lemma load_Inr:
  assumes "load e w = (Inr c, w')"
  shows "\<exists>acc. load_loop e (setting_objects w) load_acc0 = Inr acc \<and> c = new_cache acc
           \<and> removed_settings acc = map row_name (filter (\<lambda>obj. registry_of e (row_name obj) = None) (setting_objects w))
           \<and> conflicting_settings acc = conflicts_of e (setting_objects w)"
    and "setting_objects w' = filter (\<lambda>obj. registry_of e (row_name obj) \<noteq> None) (setting_objects w)"
    and "warnings w' = warnings w @
           (if conflicts_of e (setting_objects w) = [] then []
            else [conflict_warning (conflicts_of e (setting_objects w))])"
    and "db_scans w' = Suc (db_scans w)"
    and "editable_caches w' = editable_caches w"
proof -
  from assms obtain acc where acc: "load_loop e (setting_objects w) load_acc0 = Inr acc"
    by (auto simp: load_def Let_def split: sum.splits)
  have rem: "removed_settings acc = map row_name (filter (\<lambda>obj. registry_of e (row_name obj) = None) (setting_objects w))"
    using load_loop_removed [OF acc] by (simp add: load_acc0_def)
  have con: "conflicting_settings acc = conflicts_of e (setting_objects w)"
    using load_loop_conflicting [OF acc] by (simp add: load_acc0_def conflicts_of_def)
  from assms acc have c: "c = new_cache acc"
    by (auto simp: load_def Let_def split: if_splits)
  show "\<exists>acc. load_loop e (setting_objects w) load_acc0 = Inr acc \<and> c = new_cache acc
           \<and> removed_settings acc = map row_name (filter (\<lambda>obj. registry_of e (row_name obj) = None) (setting_objects w))
           \<and> conflicting_settings acc = conflicts_of e (setting_objects w)"
    using acc rem con c by blast
  from assms acc have "setting_objects w' =
      (if removed_settings acc \<noteq> [] then filter (\<lambda>obj. row_name obj \<notin> set (removed_settings acc)) (setting_objects w)
       else setting_objects w)"
    by (auto simp: load_def Let_def split: if_splits)
  then show "setting_objects w' = filter (\<lambda>obj. registry_of e (row_name obj) \<noteq> None) (setting_objects w)"
    using filter_removed [of e "setting_objects w"] filter_none_removed [of e "setting_objects w"]
    by (simp add: rem split: if_splits)
  from assms acc show "warnings w' = warnings w @
           (if conflicts_of e (setting_objects w) = [] then []
            else [conflict_warning (conflicts_of e (setting_objects w))])"
    by (auto simp: load_def Let_def con split: if_splits)
  from assms acc show "db_scans w' = Suc (db_scans w)"
    by (auto simp: load_def Let_def split: if_splits)
  from assms acc show "editable_caches w' = editable_caches w"
    by (auto simp: load_def Let_def split: if_splits)
qed

lemma load_Inl:
  assumes "load e w = (Inl err, w')"
  shows "w' = w\<lparr>db_scans := Suc (db_scans w)\<rparr>"
    and "load_loop e (setting_objects w) load_acc0 = Inl err"
  using assms by (auto simp: load_def Let_def split: sum.splits)

lemma load_db_scans: "db_scans (snd (load e w)) = Suc (db_scans w)"
  by (auto simp: load_def Let_def split: sum.splits)

lemma load_caches: "editable_caches (snd (load e w)) = editable_caches w"
  by (auto simp: load_def Let_def split: sum.splits)

subsection \<open>A load\<close>

lemma load_cache_none:
  assumes "load e w = (Inr c, w')" and "registry_of e n = None \<or> django e n \<noteq> None"
  shows "c n = None"
proof -
  from load_Inr(1) [OF assms(1)] obtain acc where
    "load_loop e (setting_objects w) load_acc0 = Inr acc" "c = new_cache acc" by blast
  with load_loop_cache_none [of e "setting_objects w" load_acc0 acc n] assms(2)
  show ?thesis by (simp add: load_acc0_def)
qed

lemma load_ex_rows:
  "load ex_env (Settings_init ex_rows) =
     (Inr [''ITEMS_PER_PAGE'' \<mapsto> VInt 25],
      \<lparr>editable_caches = [NULL_REQUEST \<mapsto> Map.empty],
       setting_objects = [\<lparr>row_name = ''ITEMS_PER_PAGE'', row_value = ''25''\<rparr>,
                          \<lparr>row_name = ''SITE_TITLE'', row_value = ''Other''\<rparr>],
       warnings = [conflict_warning [''SITE_TITLE'']], db_scans = 1\<rparr>)"
  by (simp add: load_def Let_def Settings_init_def ex_rows_def ex_env_def ex_registry_def
      ex_django_def ex_items_def ex_title_def load_acc0_def convert_def sample_python_def
      sample_int_def is_digit_def)

text \<open>
  C9. A load either fails, and then because of a row whose name is registered, or
  returns a cache and a table such that: the table keeps exactly the rows whose names
  are registered, so every row whose name is absent from the registry has been deleted
  by the bulk delete after the scan; and no such name is a key of the returned cache.
  Rows with unregistered names never make a load fail.
\<close>

theorem unregistered_rows_removed:
  "case load e w of
     (Inl err, w') \<Rightarrow>
        \<exists>obj \<in> set (setting_objects w). registry_of e (row_name obj) \<noteq> None
   | (Inr c, w') \<Rightarrow>
        setting_objects w' =
          filter (\<lambda>obj. registry_of e (row_name obj) \<noteq> None) (setting_objects w)
        \<and> (\<forall>obj \<in> set (setting_objects w). registry_of e (row_name obj) = None \<longrightarrow>
              c (row_name obj) = None \<and> obj \<notin> set (setting_objects w'))"
proof (cases "load e w")
  case (Pair r w')
  show ?thesis
  proof (cases r)
    case (Inl err)
    with Pair have "load e w = (Inl err, w')" by simp
    from load_loop_error [OF load_Inl(2) [OF this]] Pair Inl show ?thesis by auto
  next
    case (Inr c)
    with Pair have l: "load e w = (Inr c, w')" by simp
    have "setting_objects w' =
          filter (\<lambda>obj. registry_of e (row_name obj) \<noteq> None) (setting_objects w)"
      by (rule load_Inr(2) [OF l])
    moreover have "\<And>n. registry_of e n = None \<Longrightarrow> c n = None"
      using load_cache_none [OF l] by blast
    ultimately show ?thesis using Pair Inr by auto
  qed
qed

theorem unregistered_rows_removed_witness:
  "registry_of ex_env ''OLD_SETTING'' = None
   \<and> \<lparr>row_name = ''OLD_SETTING'', row_value = ''x''\<rparr> \<in> set (setting_objects (Settings_init ex_rows))
   \<and> (case load ex_env (Settings_init ex_rows) of
        (Inl err, w') \<Rightarrow> False
      | (Inr c, w') \<Rightarrow>
          c ''OLD_SETTING'' = None
          \<and> setting_objects w' = [\<lparr>row_name = ''ITEMS_PER_PAGE'', row_value = ''25''\<rparr>,
                                  \<lparr>row_name = ''SITE_TITLE'', row_value = ''Other''\<rparr>])"
  using unregistered_rows_removed [where e = ex_env and w = "Settings_init ex_rows"]
  by (simp add: load_ex_rows)
     (simp add: ex_env_def ex_registry_def Settings_init_def ex_rows_def)

lemma load_ex_bad_rows:
  "load ex_env (Settings_init ex_bad_rows) =
     (Inr [''ITEMS_PER_PAGE'' \<mapsto> VInt 10],
      \<lparr>editable_caches = [NULL_REQUEST \<mapsto> Map.empty],
       setting_objects = ex_bad_rows, warnings = [], db_scans = 1\<rparr>)"
  by (simp add: load_def Let_def Settings_init_def ex_bad_rows_def ex_env_def ex_registry_def
      ex_django_def ex_items_def ex_title_def load_acc0_def convert_def sample_python_def
      sample_int_def is_digit_def)

lemma join_comma_concat:
  "ns \<noteq> [] \<Longrightarrow> join_comma ns = concat (map (\<lambda>n. n @ '', '') (butlast ns)) @ last ns"
  by (induction ns rule: join_comma.induct) simp_all

lemma listed_in_concat:
  assumes "n \<in> set ns"
  shows "\<exists>pre post. concat (map (\<lambda>n. n @ sep) (butlast ns)) @ last ns = pre @ n @ post"
proof -
  from assms have ne: "ns \<noteq> []" by auto
  then have "ns = butlast ns @ [last ns]" by simp
  with assms have "n \<in> set (butlast ns) \<or> n = last ns"
    by (metis Un_iff empty_iff insert_iff list.set(1) list.set(2) set_append)
  then show ?thesis
  proof
    assume "n \<in> set (butlast ns)"
    then obtain xs ys where "butlast ns = xs @ n # ys" by (auto simp: in_set_conv_decomp)
    then have "concat (map (\<lambda>n. n @ sep) (butlast ns)) @ last ns
                 = concat (map (\<lambda>n. n @ sep) xs) @ n
                     @ (sep @ concat (map (\<lambda>n. n @ sep) ys) @ last ns)"
      by simp
    then show ?thesis by blast
  next
    assume "n = last ns"
    then have "concat (map (\<lambda>n. n @ sep) (butlast ns)) @ last ns
                 = concat (map (\<lambda>n. n @ sep) (butlast ns)) @ n @ []"
      by simp
    then show ?thesis by blast
  qed
qed

lemma load_ex_conflict_rows:
  "load ex_env_conflicts (Settings_init ex_conflict_rows) =
     (Inr [''ITEMS_PER_PAGE'' \<mapsto> VInt 25],
      \<lparr>editable_caches = [NULL_REQUEST \<mapsto> Map.empty],
       setting_objects = ex_conflict_rows,
       warnings = [conflict_warning [''SITE_TITLE'', ''DEBUG'']], db_scans = 1\<rparr>)"
  by (simp add: load_def Let_def Settings_init_def ex_conflict_rows_def ex_env_conflicts_def
      ex_registry_def ex_django_def ex_items_def ex_title_def ex_debug_def load_acc0_def
      convert_def sample_python_def sample_int_def is_digit_def)

text \<open>
  C2. After a load that returns: no row whose name \<open>django.conf.settings\<close> defines has
  its name in the returned cache; the conflicting names are exactly the names of the
  registered rows whose name the framework defines and whose converted value differs
  from the registered default; the load emits no warning when there is none and
  otherwise exactly one, whose text is the fixed opening, the conflicting names in
  table order separated by a comma and a space, and the fixed closing, so that every
  conflicting name occurs in it; and resolving a registered name that the framework
  defines, under a request whose cache this load fills, returns the framework's value.
\<close>

theorem framework_value_wins:
  assumes "load e w = (Inr c, w')"
  shows "(\<forall>obj \<in> set (setting_objects w).
            django e (row_name obj) \<noteq> None \<longrightarrow> c (row_name obj) = None)
       \<and> (\<forall>obj \<in> set (setting_objects w). \<forall>s v.
            registry_of e (row_name obj) = Some s \<and> django e (row_name obj) \<noteq> None
            \<and> convert (python_rt e) s (row_value obj) = Inr v
            \<and> py_ne (python_rt e) v (s_default s)
            \<longrightarrow> row_name obj \<in> set (conflicts_of e (setting_objects w)))
       \<and> (\<forall>n \<in> set (conflicts_of e (setting_objects w)).
            \<exists>obj \<in> set (setting_objects w). \<exists>s v.
              row_name obj = n \<and> registry_of e n = Some s \<and> django e n \<noteq> None
              \<and> convert (python_rt e) s (row_value obj) = Inr v
              \<and> py_ne (python_rt e) v (s_default s))
       \<and> warnings w' = warnings w @
            (if conflicts_of e (setting_objects w) = [] then []
             else [''These settings are defined in both settings.py and the database: ''
                   @ concat (map (\<lambda>n. n @ '', '') (butlast (conflicts_of e (setting_objects w))))
                   @ last (conflicts_of e (setting_objects w))
                   @ ''. The settings.py values will be used.''])
       \<and> (\<forall>n \<in> set (conflicts_of e (setting_objects w)).
            \<exists>pre post. warnings w' = warnings w @ [pre @ n @ post])
       \<and> (\<forall>n s dv cur.
            registry_of e n = Some s \<and> django e n = Some dv
            \<and> editable_caches w (current_request_key cur) = None
            \<longrightarrow> fst (settings_getattr e cur w n) = Inr dv)"
proof -
  let ?cs = "conflicts_of e (setting_objects w)"
  let ?head = "''These settings are defined in both settings.py and the database: ''"
  let ?tail = "''. The settings.py values will be used.''"
  have none: "\<And>n. django e n \<noteq> None \<Longrightarrow> c n = None"
    using load_cache_none [OF assms] by blast
  have a: "\<forall>obj \<in> set (setting_objects w).
            django e (row_name obj) \<noteq> None \<longrightarrow> c (row_name obj) = None"
    using none by blast
  have b: "\<forall>obj \<in> set (setting_objects w). \<forall>s v.
            registry_of e (row_name obj) = Some s \<and> django e (row_name obj) \<noteq> None
            \<and> convert (python_rt e) s (row_value obj) = Inr v
            \<and> py_ne (python_rt e) v (s_default s)
            \<longrightarrow> row_name obj \<in> set ?cs"
    by (auto simp: conflicts_of_def in_conflict_def)
  have b': "\<forall>n \<in> set ?cs.
            \<exists>obj \<in> set (setting_objects w). \<exists>s v.
              row_name obj = n \<and> registry_of e n = Some s \<and> django e n \<noteq> None
              \<and> convert (python_rt e) s (row_value obj) = Inr v
              \<and> py_ne (python_rt e) v (s_default s)"
    by (auto simp: conflicts_of_def in_conflict_def split: option.splits sum.splits)
  have msg: "?cs \<noteq> [] \<Longrightarrow> conflict_warning ?cs =
       ?head @ concat (map (\<lambda>n. n @ '', '') (butlast ?cs)) @ last ?cs @ ?tail"
    by (simp add: conflict_warning_def join_comma_concat)
  have w: "warnings w' = warnings w @
            (if ?cs = [] then []
             else [?head @ concat (map (\<lambda>n. n @ '', '') (butlast ?cs)) @ last ?cs @ ?tail])"
    using load_Inr(3) [OF assms] msg by (simp split: if_splits)
  have listed: "\<forall>n \<in> set ?cs. \<exists>pre post. warnings w' = warnings w @ [pre @ n @ post]"
  proof
    fix n assume n: "n \<in> set ?cs"
    then have ne: "?cs \<noteq> []" by auto
    from listed_in_concat [OF n, of "'', ''"] obtain pre post where
      "concat (map (\<lambda>n. n @ '', '') (butlast ?cs)) @ last ?cs = pre @ n @ post" by blast
    then have "?head @ concat (map (\<lambda>n. n @ '', '') (butlast ?cs)) @ last ?cs @ ?tail
                 = (?head @ pre) @ n @ (post @ ?tail)"
      by (metis append.assoc)
    with w ne have "warnings w' = warnings w @ [(?head @ pre) @ n @ (post @ ?tail)]"
      by simp
    then show "\<exists>pre post. warnings w' = warnings w @ [pre @ n @ post]" by blast
  qed
  have d: "\<forall>n s dv cur.
            registry_of e n = Some s \<and> django e n = Some dv
            \<and> editable_caches w (current_request_key cur) = None
            \<longrightarrow> fst (settings_getattr e cur w n) = Inr dv"
  proof (intro allI impI)
    fix n s dv cur
    assume h: "registry_of e n = Some s \<and> django e n = Some dv
            \<and> editable_caches w (current_request_key cur) = None"
    then have "c n = None" using none by simp
    with h assms show "fst (settings_getattr e cur w n) = Inr dv"
      by (simp add: settings_getattr_def get_editable_def getattr_or_def)
  qed
  from a b b' w listed d show ?thesis by blast
qed

theorem framework_value_wins_witness:
  "(case load ex_env_conflicts (Settings_init ex_conflict_rows) of
      (Inl err, w') \<Rightarrow> False
    | (Inr c, w') \<Rightarrow>
        c ''SITE_TITLE'' = None \<and> c ''DEBUG'' = None
        \<and> warnings w' =
            [''These settings are defined in both settings.py and the database: '' @
             ''SITE_TITLE, DEBUG. The settings.py values will be used.''])
   \<and> conflicts_of ex_env_conflicts ex_conflict_rows = [''SITE_TITLE'', ''DEBUG'']
   \<and> fst (settings_getattr ex_env_conflicts (Some 7) (Settings_init ex_conflict_rows)
            ''SITE_TITLE'') = Inr (VStr ''My site'')"
proof -
  have cs: "conflicts_of ex_env_conflicts ex_conflict_rows = [''SITE_TITLE'', ''DEBUG'']"
    by (simp add: conflicts_of_def in_conflict_def ex_conflict_rows_def ex_env_conflicts_def
        ex_registry_def ex_django_def ex_items_def ex_title_def ex_debug_def convert_def
        sample_python_def sample_int_def is_digit_def)
  have rows: "setting_objects (Settings_init ex_conflict_rows) = ex_conflict_rows"
    and ws: "warnings (Settings_init ex_conflict_rows) = []"
    by (simp_all add: Settings_init_def)
  have r: "registry_of ex_env_conflicts ''SITE_TITLE'' = Some ex_title"
    and d: "django ex_env_conflicts ''SITE_TITLE'' = Some (VStr ''My site'')"
    and d2: "django ex_env_conflicts ''DEBUG'' = Some (VBool True)"
    by (simp_all add: ex_env_conflicts_def ex_registry_def ex_django_def)
  have k: "editable_caches (Settings_init ex_conflict_rows) (current_request_key (Some 7)) = None"
    by (simp add: Settings_init_def current_request_key_def)
  have m: "\<lparr>row_name = ''SITE_TITLE'', row_value = ''Other''\<rparr> \<in> set ex_conflict_rows"
    and m2: "\<lparr>row_name = ''DEBUG'', row_value = ''True''\<rparr> \<in> set ex_conflict_rows"
    by (simp_all add: ex_conflict_rows_def)
  note t = framework_value_wins [OF load_ex_conflict_rows, unfolded rows ws cs]
  from t d m have 1: "[''ITEMS_PER_PAGE'' \<mapsto> VInt 25] ''SITE_TITLE'' = None" by simp
  from t have 3: "warnings
       \<lparr>editable_caches = [NULL_REQUEST \<mapsto> Map.empty],
        setting_objects = ex_conflict_rows,
        warnings = [conflict_warning [''SITE_TITLE'', ''DEBUG'']], db_scans = 1\<rparr>
     = [''These settings are defined in both settings.py and the database: '' @
        ''SITE_TITLE, DEBUG. The settings.py values will be used.'']"
    by simp
  from t r d k have 4: "fst (settings_getattr ex_env_conflicts (Some 7)
       (Settings_init ex_conflict_rows) ''SITE_TITLE'') = Inr (VStr ''My site'')"
    by blast
  from 1 3 4 cs show ?thesis by (simp add: load_ex_conflict_rows)
qed

text \<open>
  C4, as stated, fails. Registering \<open>FORM_CLASS\<close> without a default gives a descriptor of
  type \<open>NoneType\<close>; with a row of that name in the table, the conversion
  \<open>NoneType("x")\<close> raises \<open>TypeError\<close>, which the \<open>except ValueError\<close> does not catch:
  the load is aborted and the error reaches the caller that reads \<open>ITEMS_PER_PAGE\<close>.
\<close>

theorem type_error_propagates:
  "register_setting sample_python ex_django ex_registry ex_nodefault_args
     = Inr (registry_of ex_env_nodefault)
   \<and> convert sample_python ex_nodefault ''x'' = Inl TypeError
   \<and> fst (load ex_env_nodefault (Settings_init ex_nodefault_rows)) = Inl TypeError
   \<and> fst (settings_getattr ex_env_nodefault (Some 7) (Settings_init ex_nodefault_rows)
            ''ITEMS_PER_PAGE'') = Inl TypeError"
proof -
  have l: "load ex_env_nodefault (Settings_init ex_nodefault_rows) =
             (Inl TypeError, (Settings_init ex_nodefault_rows)\<lparr>db_scans := 1\<rparr>)"
    by (simp add: load_def Let_def Settings_init_def ex_nodefault_rows_def ex_env_nodefault_def
        ex_nodefault_def load_acc0_def convert_def)
  have "new_setting sample_python ex_django ex_nodefault_args ''FORM_CLASS'' = ex_nodefault"
    by (simp add: new_setting_def ex_nodefault_args_def ex_nodefault_def ex_django_def
        default_label_def sample_python_def is_upper_def is_lower_def setting_type_of_def)
  then have "register_setting sample_python ex_django ex_registry ex_nodefault_args
     = Inr (registry_of ex_env_nodefault)"
    by (simp add: register_setting_def ex_nodefault_args_def ex_env_nodefault_def)
  moreover have "convert sample_python ex_nodefault ''x'' = Inl TypeError"
    by (simp add: convert_def ex_nodefault_def)
  moreover have "fst (settings_getattr ex_env_nodefault (Some 7)
      (Settings_init ex_nodefault_rows) ''ITEMS_PER_PAGE'') = Inl TypeError"
  proof -
    have k: "editable_caches (Settings_init ex_nodefault_rows) (current_request_key (Some 7))
               = None"
      by (simp add: Settings_init_def current_request_key_def)
    have g: "get_editable ex_env_nodefault (Settings_init ex_nodefault_rows)
               (current_request_key (Some 7))
             = (Inl TypeError, (Settings_init ex_nodefault_rows)\<lparr>db_scans := 1\<rparr>)"
      by (simp add: get_editable_def k l)
    have r: "registry_of ex_env_nodefault ''ITEMS_PER_PAGE'' = Some ex_items"
      by (simp add: ex_env_nodefault_def ex_registry_def)
    have ed: "s_editable ex_items" by (simp add: ex_items_def)
    show ?thesis by (simp add: settings_getattr_def r ed g)
  qed
  ultimately show ?thesis by (simp add: l)
qed

text \<open>
  C4, amended. A conversion that raises \<open>ValueError\<close> is replaced by the registered
  default; a load never ends with a \<open>ValueError\<close>; a load of a table in which no row
  belongs to a descriptor of type \<open>NoneType\<close> always returns; and in the returned
  cache, a name that the framework does not define and whose last row failed to
  convert with a \<open>ValueError\<close> holds the registered default.
\<close>

theorem value_error_uses_default:
  "(type_fn py (s_type s) val = Inl ValueError \<longrightarrow> convert py s val = Inr (s_default s))
   \<and> (\<forall>err w'. load e w = (Inl err, w') \<longrightarrow> err \<noteq> ValueError)
   \<and> ((\<forall>obj \<in> set (setting_objects w). \<forall>s.
          registry_of e (row_name obj) = Some s \<longrightarrow> s_type s \<noteq> TNoneType)
        \<longrightarrow> (\<exists>c w'. load e w = (Inr c, w')))
   \<and> (\<forall>c w' pre obj post s'.
         load e w = (Inr c, w') \<and> setting_objects w = pre @ obj # post
         \<and> registry_of e (row_name obj) = Some s'
         \<and> type_fn (python_rt e) (s_type s') (row_value obj) = Inl ValueError
         \<and> django e (row_name obj) = None
         \<and> row_name obj \<notin> row_name ` set post
         \<longrightarrow> c (row_name obj) = Some (s_default s'))"
proof -
  have a: "type_fn py (s_type s) val = Inl ValueError \<longrightarrow> convert py s val = Inr (s_default s)"
    by (simp add: convert_def)
  have b: "\<forall>err w'. load e w = (Inl err, w') \<longrightarrow> err \<noteq> ValueError"
    using load_loop_error load_Inl(2) by blast
  have c: "(\<forall>obj \<in> set (setting_objects w). \<forall>s.
          registry_of e (row_name obj) = Some s \<longrightarrow> s_type s \<noteq> TNoneType)
        \<longrightarrow> (\<exists>c w'. load e w = (Inr c, w'))"
  proof
    assume "\<forall>obj \<in> set (setting_objects w). \<forall>s.
          registry_of e (row_name obj) = Some s \<longrightarrow> s_type s \<noteq> TNoneType"
    from load_loop_total [OF this, of load_acc0] obtain acc where
      "load_loop e (setting_objects w) load_acc0 = Inr acc" by blast
    then show "\<exists>c w'. load e w = (Inr c, w')"
      by (simp add: load_def Let_def)
  qed
  have d: "\<forall>c w' pre obj post s'.
         load e w = (Inr c, w') \<and> setting_objects w = pre @ obj # post
         \<and> registry_of e (row_name obj) = Some s'
         \<and> type_fn (python_rt e) (s_type s') (row_value obj) = Inl ValueError
         \<and> django e (row_name obj) = None
         \<and> row_name obj \<notin> row_name ` set post
         \<longrightarrow> c (row_name obj) = Some (s_default s')"
  proof (intro allI impI)
    fix c w' pre obj post s'
    assume h: "load e w = (Inr c, w') \<and> setting_objects w = pre @ obj # post
         \<and> registry_of e (row_name obj) = Some s'
         \<and> type_fn (python_rt e) (s_type s') (row_value obj) = Inl ValueError
         \<and> django e (row_name obj) = None
         \<and> row_name obj \<notin> row_name ` set post"
    then obtain acc where acc: "load_loop e (pre @ obj # post) load_acc0 = Inr acc"
      and c: "c = new_cache acc"
      using load_Inr(1) [of e w c w'] by auto
    from h have cv: "convert (python_rt e) s' (row_value obj) = Inr (s_default s')"
      by (simp add: convert_def)
    from load_loop_cache_last [OF acc, of s'] h cv c
    show "c (row_name obj) = Some (s_default s')" by auto
  qed
  from a b c d show ?thesis by blast
qed

theorem value_error_uses_default_witness:
  "type_fn sample_python (s_type ex_items) ''abc'' = Inl ValueError
   \<and> (case load ex_env (Settings_init ex_bad_rows) of
        (Inl err, w') \<Rightarrow> False
      | (Inr c, w') \<Rightarrow> c ''ITEMS_PER_PAGE'' = Some (VInt 10))"
  using value_error_uses_default [where e = ex_env and w = "Settings_init ex_bad_rows"
      and py = sample_python and s = ex_items and val = "''abc''"]
  by (simp add: load_ex_bad_rows)
     (simp add: ex_items_def sample_python_def sample_int_def is_digit_def)

subsection \<open>Resolution and the cache of a request\<close>

lemma get_editable_hit:
  "editable_caches w k = Some c \<Longrightarrow> get_editable e w k = (Inr c, w)"
  by (simp add: get_editable_def)

lemma get_editable_caches:
  "editable_caches w k = Some c \<Longrightarrow> editable_caches (snd (get_editable e w k')) k = Some c"
proof (cases "editable_caches w k'")
  case None
  assume a: "editable_caches w k = Some c"
  with None have ne: "k' \<noteq> k" by auto
  obtain r w' where l: "load e w = (r, w')" by (cases "load e w")
  then have "editable_caches w' = editable_caches w"
    using load_caches [of e w] by simp
  with None l a ne show ?thesis
    by (cases r) (simp_all add: get_editable_def)
next
  case (Some c')
  assume "editable_caches w k = Some c"
  with Some show ?thesis by (simp add: get_editable_def)
qed

lemma getattr_caches:
  assumes "editable_caches w k = Some c"
  shows "editable_caches (snd (settings_getattr e cur w n)) k = Some c"
proof (cases "registry_of e n")
  case None
  with assms show ?thesis by (simp add: settings_getattr_def split: option.splits)
next
  case (Some s)
  show ?thesis
  proof (cases "s_editable s")
    case False
    with Some assms show ?thesis by (simp add: settings_getattr_def)
  next
    case True
    obtain r w' where g: "get_editable e w (current_request_key cur) = (r, w')"
      by (cases "get_editable e w (current_request_key cur)")
    with get_editable_caches [OF assms, of e "current_request_key cur"]
    have "editable_caches w' k = Some c" by simp
    with Some True g show ?thesis
      by (cases r) (simp_all add: settings_getattr_def split: option.splits)
  qed
qed

lemma step_caches:
  "editable_caches w k = Some c \<Longrightarrow> \<not> evicts k ev \<Longrightarrow>
   editable_caches (step e w ev) k = Some c"
  by (cases ev) (auto simp: getattr_caches clear_cache_def use_editable_def Let_def)

lemma run_caches:
  "editable_caches w k = Some c \<Longrightarrow> \<forall>ev \<in> set evs. \<not> evicts k ev \<Longrightarrow>
   editable_caches (run e w evs) k = Some c"
  unfolding run_def
  by (induction evs arbitrary: w) (simp_all add: step_caches)

lemma getattr_hit:
  assumes "registry_of e n = Some s" "s_editable s"
    "editable_caches w (current_request_key cur) = Some c"
  shows "settings_getattr e cur w n =
           (Inr (case c n of Some v \<Rightarrow> v
                 | None \<Rightarrow> (case django e n of Some v \<Rightarrow> v | None \<Rightarrow> s_default s)), w)"
  using assms
  by (simp add: settings_getattr_def get_editable_hit getattr_or_def split: option.splits)

lemma getattr_miss:
  assumes "registry_of e n = Some s" "s_editable s"
    "editable_caches w (current_request_key cur) = None"
  shows "settings_getattr e cur w n =
           (case load e w of
              (Inl err, w') \<Rightarrow> (Inl err, w')
            | (Inr c, w') \<Rightarrow>
                (Inr (case c n of Some v \<Rightarrow> v
                      | None \<Rightarrow> (case django e n of Some v \<Rightarrow> v | None \<Rightarrow> s_default s)),
                 w'\<lparr>editable_caches := (editable_caches w')(current_request_key cur \<mapsto> c)\<rparr>))"
  using assms
  by (simp add: settings_getattr_def get_editable_def getattr_or_def
      split: option.splits sum.splits prod.splits)

text \<open>
  C1. For every name read on the \<open>Settings\<close> object through \<open>__getattr__\<close>: a name that
  is not in the registry gives the attribute of \<open>django.conf.settings\<close>, and an
  \<open>AttributeError\<close> when the framework lacks it too; a registered name that is not
  editable gives the framework's value when the framework defines it and the
  registered default otherwise; a registered editable name gives the value in the
  cache of the current request when the name is a key of it, else the framework's
  value, else the registered default. The cache is the entry of the request when
  there is one, and otherwise the result of a load, stored under the request; when
  that load raises, so does the access.
\<close>

theorem resolution_tiers:
  "(registry_of e n = None \<longrightarrow>
      settings_getattr e cur w n =
        (case django e n of None \<Rightarrow> Inl AttributeError | Some v \<Rightarrow> Inr v, w))
   \<and> (\<forall>s. registry_of e n = Some s \<and> \<not> s_editable s \<longrightarrow>
        settings_getattr e cur w n =
          (Inr (case django e n of Some v \<Rightarrow> v | None \<Rightarrow> s_default s), w))
   \<and> (\<forall>s c. registry_of e n = Some s \<and> s_editable s
          \<and> editable_caches w (current_request_key cur) = Some c \<longrightarrow>
        settings_getattr e cur w n =
          (Inr (case c n of Some v \<Rightarrow> v
                | None \<Rightarrow> (case django e n of Some v \<Rightarrow> v | None \<Rightarrow> s_default s)), w))
   \<and> (\<forall>s c w'. registry_of e n = Some s \<and> s_editable s
          \<and> editable_caches w (current_request_key cur) = None
          \<and> load e w = (Inr c, w') \<longrightarrow>
        settings_getattr e cur w n =
          (Inr (case c n of Some v \<Rightarrow> v
                | None \<Rightarrow> (case django e n of Some v \<Rightarrow> v | None \<Rightarrow> s_default s)),
           w'\<lparr>editable_caches := (editable_caches w')(current_request_key cur \<mapsto> c)\<rparr>))
   \<and> (\<forall>s err w'. registry_of e n = Some s \<and> s_editable s
          \<and> editable_caches w (current_request_key cur) = None
          \<and> load e w = (Inl err, w') \<longrightarrow>
        settings_getattr e cur w n = (Inl err, w'))"
proof -
  have a: "registry_of e n = None \<longrightarrow>
      settings_getattr e cur w n =
        (case django e n of None \<Rightarrow> Inl AttributeError | Some v \<Rightarrow> Inr v, w)"
    by (simp add: settings_getattr_def split: option.splits)
  have b: "\<forall>s. registry_of e n = Some s \<and> \<not> s_editable s \<longrightarrow>
        settings_getattr e cur w n =
          (Inr (case django e n of Some v \<Rightarrow> v | None \<Rightarrow> s_default s), w)"
    by (simp add: settings_getattr_def getattr_or_def)
  have c: "\<forall>s c. registry_of e n = Some s \<and> s_editable s
          \<and> editable_caches w (current_request_key cur) = Some c \<longrightarrow>
        settings_getattr e cur w n =
          (Inr (case c n of Some v \<Rightarrow> v
                | None \<Rightarrow> (case django e n of Some v \<Rightarrow> v | None \<Rightarrow> s_default s)), w)"
    using getattr_hit by blast
  have d: "\<forall>s c w'. registry_of e n = Some s \<and> s_editable s
          \<and> editable_caches w (current_request_key cur) = None
          \<and> load e w = (Inr c, w') \<longrightarrow>
        settings_getattr e cur w n =
          (Inr (case c n of Some v \<Rightarrow> v
                | None \<Rightarrow> (case django e n of Some v \<Rightarrow> v | None \<Rightarrow> s_default s)),
           w'\<lparr>editable_caches := (editable_caches w')(current_request_key cur \<mapsto> c)\<rparr>)"
    by (simp add: getattr_miss)
  have f: "\<forall>s err w'. registry_of e n = Some s \<and> s_editable s
          \<and> editable_caches w (current_request_key cur) = None
          \<and> load e w = (Inl err, w') \<longrightarrow>
        settings_getattr e cur w n = (Inl err, w')"
    by (simp add: getattr_miss)
  from a b c d f show ?thesis by blast
qed

lemma ex_first_access:
  "settings_getattr ex_env (Some 7) (Settings_init ex_rows) ''ITEMS_PER_PAGE'' =
     (Inr (VInt 25),
      \<lparr>editable_caches = [NULL_REQUEST \<mapsto> Map.empty,
                           Request 7 \<mapsto> [''ITEMS_PER_PAGE'' \<mapsto> VInt 25]],
       setting_objects = [\<lparr>row_name = ''ITEMS_PER_PAGE'', row_value = ''25''\<rparr>,
                          \<lparr>row_name = ''SITE_TITLE'', row_value = ''Other''\<rparr>],
       warnings = [conflict_warning [''SITE_TITLE'']], db_scans = 1\<rparr>)"
proof -
  have r: "registry_of ex_env ''ITEMS_PER_PAGE'' = Some ex_items"
    by (simp add: ex_env_def ex_registry_def)
  have ed: "s_editable ex_items" by (simp add: ex_items_def)
  have k: "editable_caches (Settings_init ex_rows) (current_request_key (Some 7)) = None"
    by (simp add: Settings_init_def current_request_key_def)
  show ?thesis
    by (simp add: getattr_miss [OF r ed k] load_ex_rows) (simp add: current_request_key_def)
qed

theorem resolution_tiers_witness:
  "fst (settings_getattr ex_env (Some 7) (Settings_init ex_rows) ''NO_SUCH_SETTING'')
     = Inl AttributeError
   \<and> fst (settings_getattr ex_env (Some 7) (Settings_init ex_rows) ''DEBUG'')
       = Inr (VBool True)
   \<and> fst (settings_getattr ex_env (Some 7) (Settings_init ex_rows) ''SITE_TITLE'')
       = Inr (VStr ''My site'')
   \<and> fst (settings_getattr ex_env (Some 7) (Settings_init ex_rows) ''ITEMS_PER_PAGE'')
       = Inr (VInt 25)
   \<and> fst (settings_getattr ex_env None (Settings_init ex_rows) ''ITEMS_PER_PAGE'')
       = Inr (VInt 10)"
proof -
  have k: "editable_caches (Settings_init ex_rows) (current_request_key (Some 7)) = None"
    and k0: "editable_caches (Settings_init ex_rows) (current_request_key None) = Some Map.empty"
    by (simp_all add: Settings_init_def current_request_key_def)
  have r: "registry_of ex_env ''ITEMS_PER_PAGE'' = Some ex_items"
    and r1: "registry_of ex_env ''SITE_TITLE'' = Some ex_title"
    and r2: "registry_of ex_env ''DEBUG'' = None"
    and r3: "registry_of ex_env ''NO_SUCH_SETTING'' = None"
    by (simp_all add: ex_env_def ex_registry_def)
  have d: "django ex_env ''ITEMS_PER_PAGE'' = None"
    and d1: "django ex_env ''SITE_TITLE'' = Some (VStr ''My site'')"
    and d2: "django ex_env ''DEBUG'' = Some (VBool True)"
    and d3: "django ex_env ''NO_SUCH_SETTING'' = None"
    by (simp_all add: ex_env_def ex_django_def)
  have ed: "s_editable ex_items" and ed1: "\<not> s_editable ex_title"
    and df: "s_default ex_items = VInt 10"
    by (simp_all add: ex_items_def ex_title_def)
  from resolution_tiers [where e = ex_env and n = "''NO_SUCH_SETTING''" and cur = "Some 7"
      and w = "Settings_init ex_rows"] r3 d3
  have 1: "fst (settings_getattr ex_env (Some 7) (Settings_init ex_rows) ''NO_SUCH_SETTING'')
     = Inl AttributeError" by simp
  from resolution_tiers [where e = ex_env and n = "''DEBUG''" and cur = "Some 7"
      and w = "Settings_init ex_rows"] r2 d2
  have 2: "fst (settings_getattr ex_env (Some 7) (Settings_init ex_rows) ''DEBUG'')
       = Inr (VBool True)" by simp
  from resolution_tiers [where e = ex_env and n = "''SITE_TITLE''" and cur = "Some 7"
      and w = "Settings_init ex_rows"] r1 d1 ed1
  have 3: "fst (settings_getattr ex_env (Some 7) (Settings_init ex_rows) ''SITE_TITLE'')
       = Inr (VStr ''My site'')" by simp
  from resolution_tiers [where e = ex_env and n = "''ITEMS_PER_PAGE''" and cur = "Some 7"
      and w = "Settings_init ex_rows"] r ed k load_ex_rows
  have 4: "fst (settings_getattr ex_env (Some 7) (Settings_init ex_rows) ''ITEMS_PER_PAGE'')
       = Inr (VInt 25)" by simp
  from resolution_tiers [where e = ex_env and n = "''ITEMS_PER_PAGE''" and cur = None
      and w = "Settings_init ex_rows"] r ed k0 d df
  have 5: "fst (settings_getattr ex_env None (Settings_init ex_rows) ''ITEMS_PER_PAGE'')
       = Inr (VInt 10)" by simp
  from 1 2 3 4 5 show ?thesis by blast
qed

lemma ex_after_request_eq:
  "ex_after_request =
     \<lparr>editable_caches = [NULL_REQUEST \<mapsto> Map.empty,
                          Request 7 \<mapsto> [''ITEMS_PER_PAGE'' \<mapsto> VInt 25]],
      setting_objects = [\<lparr>row_name = ''ITEMS_PER_PAGE'', row_value = ''25''\<rparr>,
                         \<lparr>row_name = ''SITE_TITLE'', row_value = ''Other''\<rparr>],
      warnings = [conflict_warning [''SITE_TITLE'']], db_scans = 1\<rparr>"
  by (simp add: ex_after_request_def ex_first_access)

text \<open>
  C3, as stated, fails in its last clause. On a fresh \<open>Settings\<close> object a read under
  request 7 scans the table and sees the stored 25. A read with no ambient request
  comes next: it is under a different identity, the sentinel, and it triggers no scan
  (the state is unchanged, one scan in all) and returns the default 10.
\<close>

theorem other_identity_without_scan:
  "current_request_key None \<noteq> current_request_key (Some 7)
   \<and> fst (settings_getattr ex_env (Some 7) (Settings_init ex_rows) ''ITEMS_PER_PAGE'')
       = Inr (VInt 25)
   \<and> db_scans ex_after_request = 1
   \<and> settings_getattr ex_env None ex_after_request ''ITEMS_PER_PAGE''
       = (Inr (VInt 10), ex_after_request)
   \<and> db_scans (snd (settings_getattr ex_env None ex_after_request ''ITEMS_PER_PAGE'')) = 1"
proof -
  have r: "registry_of ex_env ''ITEMS_PER_PAGE'' = Some ex_items"
    by (simp add: ex_env_def ex_registry_def)
  have ed: "s_editable ex_items" by (simp add: ex_items_def)
  have k: "editable_caches ex_after_request (current_request_key None) = Some Map.empty"
    by (simp add: ex_after_request_eq current_request_key_def)
  have g: "settings_getattr ex_env None ex_after_request ''ITEMS_PER_PAGE''
       = (Inr (VInt 10), ex_after_request)"
    by (simp add: getattr_hit [OF r ed k]) (simp add: ex_env_def ex_django_def ex_items_def)
  have "db_scans ex_after_request = 1" by (simp add: ex_after_request_eq)
  with g show ?thesis by (simp add: ex_first_access current_request_key_def)
qed

lemma getattr_entry_after:
  assumes "registry_of e n = Some s" "s_editable s"
    "settings_getattr e cur w n = (Inr v, w1)"
  shows "editable_caches w1 (current_request_key cur) \<noteq> None"
proof (cases "editable_caches w (current_request_key cur)")
  case None
  obtain r w' where l: "load e w = (r, w')" by (cases "load e w")
  with assms None show ?thesis
    by (cases r) (auto simp: getattr_miss)
next
  case (Some c)
  with assms show ?thesis by (auto simp: getattr_hit)
qed

lemma getattr_miss_scans:
  assumes "registry_of e n = Some s" "s_editable s"
    "editable_caches w (current_request_key cur) = None"
  shows "db_scans (snd (settings_getattr e cur w n)) = Suc (db_scans w)"
proof -
  obtain r w' where l: "load e w = (r, w')" by (cases "load e w")
  then have "db_scans w' = Suc (db_scans w)" using load_db_scans [of e w] by simp
  with assms l show ?thesis by (cases r) (simp_all add: getattr_miss)
qed

text \<open>
  C3, amended. Once the cache holds an entry for an identity, after any sequence of
  events that does not evict that entry (reads under any identity, rewrites of the
  table, clears under other identities, other requests being reclaimed) the entry is
  the same mapping, and an editable read under the identity answers from it and
  leaves the whole state, scan counter included, unchanged. An editable read that
  returns leaves an entry for its identity, so a second scan under it cannot follow
  a completed one. A read under an identity that has no entry scans the table once
  and, when the load returns, stores its result as the entry. \<open>clear_cache\<close> removes
  the entry of the current identity.
\<close>

theorem cache_entry_stable:
  "(\<forall>c evs n s. editable_caches w (current_request_key cur) = Some c
       \<and> (\<forall>ev \<in> set evs. \<not> evicts (current_request_key cur) ev)
       \<and> registry_of e n = Some s \<and> s_editable s \<longrightarrow>
       editable_caches (run e w evs) (current_request_key cur) = Some c
       \<and> settings_getattr e cur (run e w evs) n =
           (Inr (case c n of Some v \<Rightarrow> v
                 | None \<Rightarrow> (case django e n of Some v \<Rightarrow> v | None \<Rightarrow> s_default s)),
            run e w evs))
   \<and> (\<forall>n s v w1. registry_of e n = Some s \<and> s_editable s
       \<and> settings_getattr e cur w n = (Inr v, w1) \<longrightarrow>
       editable_caches w1 (current_request_key cur) \<noteq> None)
   \<and> (\<forall>n s. editable_caches w (current_request_key cur) = None
       \<and> registry_of e n = Some s \<and> s_editable s \<longrightarrow>
       db_scans (snd (settings_getattr e cur w n)) = Suc (db_scans w)
       \<and> (\<forall>c w'. load e w = (Inr c, w') \<longrightarrow>
            editable_caches (snd (settings_getattr e cur w n)) (current_request_key cur)
              = Some c))
   \<and> editable_caches (clear_cache cur w) (current_request_key cur) = None"
proof -
  have a: "\<forall>c evs n s. editable_caches w (current_request_key cur) = Some c
       \<and> (\<forall>ev \<in> set evs. \<not> evicts (current_request_key cur) ev)
       \<and> registry_of e n = Some s \<and> s_editable s \<longrightarrow>
       editable_caches (run e w evs) (current_request_key cur) = Some c
       \<and> settings_getattr e cur (run e w evs) n =
           (Inr (case c n of Some v \<Rightarrow> v
                 | None \<Rightarrow> (case django e n of Some v \<Rightarrow> v | None \<Rightarrow> s_default s)),
            run e w evs)"
  proof (intro allI impI)
    fix c evs n s
    assume h: "editable_caches w (current_request_key cur) = Some c
       \<and> (\<forall>ev \<in> set evs. \<not> evicts (current_request_key cur) ev)
       \<and> registry_of e n = Some s \<and> s_editable s"
    then have k: "editable_caches (run e w evs) (current_request_key cur) = Some c"
      by (simp add: run_caches)
    with h getattr_hit [of e n s "run e w evs" cur c]
    show "editable_caches (run e w evs) (current_request_key cur) = Some c
       \<and> settings_getattr e cur (run e w evs) n =
           (Inr (case c n of Some v \<Rightarrow> v
                 | None \<Rightarrow> (case django e n of Some v \<Rightarrow> v | None \<Rightarrow> s_default s)),
            run e w evs)"
      by simp
  qed
  have b: "\<forall>n s v w1. registry_of e n = Some s \<and> s_editable s
       \<and> settings_getattr e cur w n = (Inr v, w1) \<longrightarrow>
       editable_caches w1 (current_request_key cur) \<noteq> None"
    using getattr_entry_after by blast
  have c: "\<forall>n s. editable_caches w (current_request_key cur) = None
       \<and> registry_of e n = Some s \<and> s_editable s \<longrightarrow>
       db_scans (snd (settings_getattr e cur w n)) = Suc (db_scans w)
       \<and> (\<forall>c w'. load e w = (Inr c, w') \<longrightarrow>
            editable_caches (snd (settings_getattr e cur w n)) (current_request_key cur)
              = Some c)"
  proof (intro allI impI conjI)
    fix n s
    assume h: "editable_caches w (current_request_key cur) = None
       \<and> registry_of e n = Some s \<and> s_editable s"
    then show "db_scans (snd (settings_getattr e cur w n)) = Suc (db_scans w)"
      using getattr_miss_scans [of e n s w cur] by simp
    fix c w'
    assume "load e w = (Inr c, w')"
    with h getattr_miss [of e n s w cur]
    show "editable_caches (snd (settings_getattr e cur w n)) (current_request_key cur)
            = Some c"
      by simp
  qed
  have d: "editable_caches (clear_cache cur w) (current_request_key cur) = None"
    by (simp add: clear_cache_def)
  from a b c d show ?thesis by blast
qed

theorem cache_entry_stable_witness:
  "editable_caches ex_after_request (current_request_key (Some 7))
     = Some [''ITEMS_PER_PAGE'' \<mapsto> VInt 25]
   \<and> list_all (\<lambda>ev. \<not> evicts (current_request_key (Some 7)) ev) ex_events
   \<and> settings_getattr ex_env (Some 7) (run ex_env ex_after_request ex_events) ''ITEMS_PER_PAGE''
       = (Inr (VInt 25), run ex_env ex_after_request ex_events)
   \<and> editable_caches (clear_cache (Some 7) ex_after_request) (current_request_key (Some 7))
       = None"
proof -
  have k: "editable_caches ex_after_request (current_request_key (Some 7))
     = Some [''ITEMS_PER_PAGE'' \<mapsto> VInt 25]"
    by (simp add: ex_after_request_eq current_request_key_def)
  have ev: "\<forall>ev \<in> set ex_events. \<not> evicts (current_request_key (Some 7)) ev"
    by (simp add: ex_events_def current_request_key_def)
  have r: "registry_of ex_env ''ITEMS_PER_PAGE'' = Some ex_items"
    by (simp add: ex_env_def ex_registry_def)
  have ed: "s_editable ex_items" by (simp add: ex_items_def)
  from cache_entry_stable [where e = ex_env and w = ex_after_request and cur = "Some 7"]
    k ev r ed
  have "settings_getattr ex_env (Some 7) (run ex_env ex_after_request ex_events)
          ''ITEMS_PER_PAGE''
        = (Inr (case [''ITEMS_PER_PAGE'' \<mapsto> VInt 25] ''ITEMS_PER_PAGE'' of
                  Some v \<Rightarrow> v
                | None \<Rightarrow> (case django ex_env ''ITEMS_PER_PAGE'' of
                              Some v \<Rightarrow> v | None \<Rightarrow> s_default ex_items)),
           run ex_env ex_after_request ex_events)"
    and "editable_caches (clear_cache (Some 7) ex_after_request)
           (current_request_key (Some 7)) = None"
    by blast+
  with k ev show ?thesis by (simp add: list_all_iff)
qed

text \<open>
  C10. With no ambient request the key is the sentinel, which \<open>__init__\<close> maps to an
  empty dict. From construction and until an event evicts that entry, whatever the
  table holds or comes to hold, an editable read with no ambient request leaves the
  state unchanged (no scan) and returns the framework's value or the registered
  default. After \<open>clear_cache\<close> with no ambient request the sentinel has no entry: the
  next editable read scans the table, answers from the loaded values, and stores
  them as the sentinel's entry.
\<close>

theorem null_request_preseeded:
  "current_request_key None = NULL_REQUEST
   \<and> editable_caches (Settings_init rows) NULL_REQUEST = Some Map.empty
   \<and> (\<forall>evs n s. (\<forall>ev \<in> set evs. \<not> evicts NULL_REQUEST ev)
         \<and> registry_of e n = Some s \<and> s_editable s \<longrightarrow>
         settings_getattr e None (run e (Settings_init rows) evs) n =
           (Inr (case django e n of Some v \<Rightarrow> v | None \<Rightarrow> s_default s),
            run e (Settings_init rows) evs))
   \<and> editable_caches (clear_cache None w) NULL_REQUEST = None
   \<and> (\<forall>n s. registry_of e n = Some s \<and> s_editable s \<longrightarrow>
         db_scans (snd (settings_getattr e None (clear_cache None w) n))
           = Suc (db_scans w))
   \<and> (\<forall>n s c w'. registry_of e n = Some s \<and> s_editable s
         \<and> load e (clear_cache None w) = (Inr c, w') \<longrightarrow>
         settings_getattr e None (clear_cache None w) n =
           (Inr (case c n of Some v \<Rightarrow> v
                 | None \<Rightarrow> (case django e n of Some v \<Rightarrow> v | None \<Rightarrow> s_default s)),
            w'\<lparr>editable_caches := (editable_caches w')(NULL_REQUEST \<mapsto> c)\<rparr>))"
proof -
  have key: "current_request_key None = NULL_REQUEST"
    by (simp add: current_request_key_def)
  have seed: "editable_caches (Settings_init rows) NULL_REQUEST = Some Map.empty"
    by (simp add: Settings_init_def)
  have a: "\<forall>evs n s. (\<forall>ev \<in> set evs. \<not> evicts NULL_REQUEST ev)
         \<and> registry_of e n = Some s \<and> s_editable s \<longrightarrow>
         settings_getattr e None (run e (Settings_init rows) evs) n =
           (Inr (case django e n of Some v \<Rightarrow> v | None \<Rightarrow> s_default s),
            run e (Settings_init rows) evs)"
  proof (intro allI impI)
    fix evs n s
    assume h: "(\<forall>ev \<in> set evs. \<not> evicts NULL_REQUEST ev)
         \<and> registry_of e n = Some s \<and> s_editable s"
    with seed have "editable_caches (run e (Settings_init rows) evs) NULL_REQUEST
                      = Some Map.empty"
      by (simp add: run_caches)
    with h getattr_hit [of e n s "run e (Settings_init rows) evs" None Map.empty] key
    show "settings_getattr e None (run e (Settings_init rows) evs) n =
           (Inr (case django e n of Some v \<Rightarrow> v | None \<Rightarrow> s_default s),
            run e (Settings_init rows) evs)"
      by simp
  qed
  have cleared: "editable_caches (clear_cache None w) NULL_REQUEST = None"
    by (simp add: clear_cache_def key)
  have b: "\<forall>n s. registry_of e n = Some s \<and> s_editable s \<longrightarrow>
         db_scans (snd (settings_getattr e None (clear_cache None w) n))
           = Suc (db_scans w)"
  proof (intro allI impI)
    fix n s
    assume "registry_of e n = Some s \<and> s_editable s"
    with getattr_miss_scans [of e n s "clear_cache None w" None] cleared key
    show "db_scans (snd (settings_getattr e None (clear_cache None w) n))
           = Suc (db_scans w)"
      by (simp add: clear_cache_def)
  qed
  have c: "\<forall>n s c w'. registry_of e n = Some s \<and> s_editable s
         \<and> load e (clear_cache None w) = (Inr c, w') \<longrightarrow>
         settings_getattr e None (clear_cache None w) n =
           (Inr (case c n of Some v \<Rightarrow> v
                 | None \<Rightarrow> (case django e n of Some v \<Rightarrow> v | None \<Rightarrow> s_default s)),
            w'\<lparr>editable_caches := (editable_caches w')(NULL_REQUEST \<mapsto> c)\<rparr>)"
  proof (intro allI impI)
    fix n s c w'
    assume "registry_of e n = Some s \<and> s_editable s
         \<and> load e (clear_cache None w) = (Inr c, w')"
    with getattr_miss [of e n s "clear_cache None w" None] cleared key
    show "settings_getattr e None (clear_cache None w) n =
           (Inr (case c n of Some v \<Rightarrow> v
                 | None \<Rightarrow> (case django e n of Some v \<Rightarrow> v | None \<Rightarrow> s_default s)),
            w'\<lparr>editable_caches := (editable_caches w')(NULL_REQUEST \<mapsto> c)\<rparr>)"
      by simp
  qed
  from key seed a cleared b c show ?thesis by blast
qed

lemma load_ex_rows_cleared:
  "load ex_env (clear_cache None (Settings_init ex_rows)) =
     (Inr [''ITEMS_PER_PAGE'' \<mapsto> VInt 25],
      \<lparr>editable_caches = Map.empty,
       setting_objects = [\<lparr>row_name = ''ITEMS_PER_PAGE'', row_value = ''25''\<rparr>,
                          \<lparr>row_name = ''SITE_TITLE'', row_value = ''Other''\<rparr>],
       warnings = [conflict_warning [''SITE_TITLE'']], db_scans = 1\<rparr>)"
  by (simp add: load_def Let_def Settings_init_def ex_rows_def ex_env_def ex_registry_def
      ex_django_def ex_items_def ex_title_def load_acc0_def convert_def sample_python_def
      sample_int_def is_digit_def clear_cache_def current_request_key_def)

theorem null_request_preseeded_witness:
  "list_all (\<lambda>ev. \<not> evicts NULL_REQUEST ev) ex_events
   \<and> fst (settings_getattr ex_env None (run ex_env (Settings_init ex_rows) ex_events)
            ''ITEMS_PER_PAGE'') = Inr (VInt 10)
   \<and> snd (settings_getattr ex_env None (run ex_env (Settings_init ex_rows) ex_events)
            ''ITEMS_PER_PAGE'') = run ex_env (Settings_init ex_rows) ex_events
   \<and> fst (settings_getattr ex_env None (clear_cache None (Settings_init ex_rows))
            ''ITEMS_PER_PAGE'') = Inr (VInt 25)
   \<and> editable_caches
        (snd (settings_getattr ex_env None (clear_cache None (Settings_init ex_rows))
               ''ITEMS_PER_PAGE'')) NULL_REQUEST = Some [''ITEMS_PER_PAGE'' \<mapsto> VInt 25]"
proof -
  have ev: "\<forall>ev \<in> set ex_events. \<not> evicts NULL_REQUEST ev"
    by (simp add: ex_events_def current_request_key_def)
  have r: "registry_of ex_env ''ITEMS_PER_PAGE'' = Some ex_items"
    by (simp add: ex_env_def ex_registry_def)
  have ed: "s_editable ex_items" and df: "s_default ex_items = VInt 10"
    by (simp_all add: ex_items_def)
  have d: "django ex_env ''ITEMS_PER_PAGE'' = None"
    by (simp add: ex_env_def ex_django_def)
  note t = null_request_preseeded [where e = ex_env and rows = ex_rows
      and w = "Settings_init ex_rows"]
  from t ev r ed
  have 1: "settings_getattr ex_env None (run ex_env (Settings_init ex_rows) ex_events)
            ''ITEMS_PER_PAGE''
           = (Inr (case django ex_env ''ITEMS_PER_PAGE'' of
                     Some v \<Rightarrow> v | None \<Rightarrow> s_default ex_items),
              run ex_env (Settings_init ex_rows) ex_events)"
    by blast
  from t r ed load_ex_rows_cleared
  have 2: "settings_getattr ex_env None (clear_cache None (Settings_init ex_rows))
             ''ITEMS_PER_PAGE''
           = (Inr (case [''ITEMS_PER_PAGE'' \<mapsto> VInt 25] ''ITEMS_PER_PAGE'' of
                     Some v \<Rightarrow> v
                   | None \<Rightarrow> (case django ex_env ''ITEMS_PER_PAGE'' of
                                 Some v \<Rightarrow> v | None \<Rightarrow> s_default ex_items)),
              \<lparr>editable_caches = Map.empty,
               setting_objects = [\<lparr>row_name = ''ITEMS_PER_PAGE'', row_value = ''25''\<rparr>,
                                  \<lparr>row_name = ''SITE_TITLE'', row_value = ''Other''\<rparr>],
               warnings = [conflict_warning [''SITE_TITLE'']], db_scans = 1\<rparr>
              \<lparr>editable_caches :=
                 (editable_caches
                    \<lparr>editable_caches = Map.empty,
                     setting_objects = [\<lparr>row_name = ''ITEMS_PER_PAGE'', row_value = ''25''\<rparr>,
                                        \<lparr>row_name = ''SITE_TITLE'', row_value = ''Other''\<rparr>],
                     warnings = [conflict_warning [''SITE_TITLE'']], db_scans = 1\<rparr>)
                 (NULL_REQUEST \<mapsto> [''ITEMS_PER_PAGE'' \<mapsto> VInt 25])\<rparr>)"
    by blast
  from 1 2 ev d df show ?thesis by (simp add: list_all_iff)
qed

end
